theory Spec2Isabelle
  imports Main "HOL-Library.AList"
begin

section \<open>The gateway's CIDR query (package daemon)\<close>

text \<open>
  Go's \<open>error\<close> values that the two packages produce: the four sentinels declared in
  package ipam, and any other error (a lister failure, whatever \<open>NewSubnet\<close> reports)
  kept by its message.
\<close>

datatype error =
    OutOfRangeError
  | ConflictError
  | NoAvailableError
  | InvalidCIDRError
  | OtherError string

text \<open>
  The protocol names of \<open>kubeovnv1\<close>. The declarations are not part of the sources at
  hand; the code only compares them, so all that matters below is that the three
  strings differ.
\<close>

definition ProtocolIPv4 :: string where
  "ProtocolIPv4 = ''IPv4''"

definition ProtocolIPv6 :: string where
  "ProtocolIPv6 = ''IPv6''"

definition ProtocolDual :: string where
  "ProtocolDual = ''Dual''"

text \<open>
  \<open>Configuration\<close> holds the two fields of \<open>c.config\<close> that \<open>getSubnetsCIDR\<close> reads;
  \<open>KSubnet\<close> is a listed \<open>kubeovnv1.Subnet\<close> object with \<open>Spec.Protocol\<close> and
  \<open>Spec.CIDRBlock\<close>.
\<close>

record Configuration =
  ServiceClusterIPRange :: string
  NodeLocalDNSIP :: string

record KSubnet =
  Spec_Protocol :: string
  Spec_CIDRBlock :: string

text \<open>
  The \<open>for _, subnet := range subnets\<close> loop of \<open>getSubnetsCIDR\<close>: \<open>ret\<close> grows by the
  CIDR block of every listed subnet whose protocol is the requested one.
\<close>

fun appendCIDRs :: "string \<Rightarrow> KSubnet list \<Rightarrow> string list \<Rightarrow> string list" where
  "appendCIDRs protocol [] ret = ret"
| "appendCIDRs protocol (subnet # subnets) ret =
     appendCIDRs protocol subnets
       (if Spec_Protocol subnet = protocol then ret @ [Spec_CIDRBlock subnet] else ret)"

text \<open>
  \<open>Controller.getSubnetsCIDR\<close>. The controller is read through three arguments:
  \<open>parses\<close> says whether \<open>net.ParseIP\<close> returns a non-nil address for a string,
  \<open>config\<close> is \<open>c.config\<close>, and \<open>listed\<close> is what \<open>c.subnetsLister.List\<close> returns
  (\<open>Inl\<close> its error). The function returns a value only: nothing of the controller is
  written.
\<close>

definition getSubnetsCIDR ::
  "(string \<Rightarrow> bool) \<Rightarrow> Configuration \<Rightarrow> error + KSubnet list \<Rightarrow> string \<Rightarrow> error + string list" where
  "getSubnetsCIDR parses config listed protocol =
     (let ret = [ServiceClusterIPRange config];
          ret = (if NodeLocalDNSIP config \<noteq> '''' \<and> parses (NodeLocalDNSIP config)
                 then ret @ [NodeLocalDNSIP config] else ret)
      in case listed of
           Inl err \<Rightarrow> Inl err
         | Inr subnets \<Rightarrow> Inr (appendCIDRs protocol subnets ret))"

section \<open>Addresses and range lists (package ipam)\<close>

text \<open>
  Go declares \<open>type IP string\<close>. The model keeps an address in read form: the family
  and the number the text denotes, or \<open>NoIP\<close> for a string that denotes no address
  (the empty string in particular). Inside one family an address is its number.
\<close>

datatype IP = NoIP | V4 nat | V6 nat

record IPRange =
  Start :: nat
  End :: nat

type_synonym IPRangeList = "IPRange list"

text \<open>
  Modelled from the spec: the interval algebra (\<open>IPRangeList\<close> and its operations) is
  not under src/. Section 4.1 of the spec describes a list of closed intervals with
  \<open>contains\<close>, \<open>allocateExact\<close>, \<open>allocateAny\<close> and \<open>subtract\<close>.
\<close>

definition inRange :: "IPRange \<Rightarrow> nat \<Rightarrow> bool" where
  "inRange r a \<longleftrightarrow> Start r \<le> a \<and> a \<le> End r"

definition Contains :: "IPRangeList \<Rightarrow> nat \<Rightarrow> bool" where
  "Contains l a = list_ex (\<lambda>r. inRange r a) l"

text \<open>
  Modelled from the spec: \<open>allocateExact\<close> removes \<open>addr\<close> if some interval covers
  it and splits that interval around \<open>addr\<close>; it answers false if \<open>addr\<close> is not free.
  \<open>splitAround\<close> is what is left of the interval: zero, one or two intervals.
\<close>

definition splitAround :: "IPRange \<Rightarrow> nat \<Rightarrow> IPRangeList" where
  "splitAround r a =
     (if Start r < a then [\<lparr>Start = Start r, End = a - 1\<rparr>] else []) @
     (if a < End r then [\<lparr>Start = a + 1, End = End r\<rparr>] else [])"

fun allocateExact :: "IPRangeList \<Rightarrow> nat \<Rightarrow> bool \<times> IPRangeList" where
  "allocateExact [] a = (False, [])"
| "allocateExact (r # rs) a =
     (if inRange r a then (True, splitAround r a @ rs)
      else (case allocateExact rs a of (ok, rs') \<Rightarrow> (ok, r # rs')))"

text \<open>
  Modelled from the spec: \<open>subtract\<close> removes every address covered by the other
  ranges; an interval may be split or removed. \<open>subtractRange r x\<close> is the part of
  \<open>r\<close> below \<open>x\<close> followed by the part of \<open>r\<close> above \<open>x\<close>.
\<close>

definition subtractRange :: "IPRange \<Rightarrow> IPRange \<Rightarrow> IPRangeList" where
  "subtractRange r x =
     (if Start r < Start x then [\<lparr>Start = Start r, End = min (End r) (Start x - 1)\<rparr>] else []) @
     (if End x < End r then [\<lparr>Start = max (Start r) (End x + 1), End = End r\<rparr>] else [])"

definition subtract :: "IPRangeList \<Rightarrow> IPRangeList \<Rightarrow> IPRangeList" where
  "subtract l others = fold (\<lambda>x acc. concat (map (\<lambda>r. subtractRange r x) acc)) others l"

text \<open>
  Modelled from the spec: \<open>allocateAny\<close> removes and returns one address and fails
  when none is left. The random choice is an argument: \<open>rnd n\<close> is a draw for a list
  of \<open>n\<close> free addresses (Go's \<open>rand.Intn\<close>), reduced below \<open>n\<close>; the address drawn is
  the one at that position, counted through the intervals.
\<close>

definition rangeSize :: "IPRange \<Rightarrow> nat" where
  "rangeSize r = End r + 1 - Start r"

fun nthAddress :: "IPRangeList \<Rightarrow> nat \<Rightarrow> nat option" where
  "nthAddress [] k = None"
| "nthAddress (r # rs) k =
     (if k < rangeSize r then Some (Start r + k) else nthAddress rs (k - rangeSize r))"

definition allocateAny :: "(nat \<Rightarrow> nat) \<Rightarrow> IPRangeList \<Rightarrow> (nat \<times> IPRangeList) option" where
  "allocateAny rnd l =
     (let n = sum_list (map rangeSize l)
      in if n = 0 then None
         else (case nthAddress l (rnd n mod n) of
                 None \<Rightarrow> None
               | Some a \<Rightarrow> Some (a, snd (allocateExact l a))))"

section \<open>Subnets\<close>

text \<open>
  Modelled from the spec: the \<open>Subnet\<close> type and its methods are not under src/.
  The fields are those of section 3 of the spec under the names the registry uses
  (\<open>Protocol\<close>, \<open>V4FreeIPList\<close>, \<open>V4ReservedIPList\<close>, \<open>V4PodToIP\<close>, \<open>PodToMac\<close> and
  their v6 twins); \<open>V4CIDR\<close> and \<open>V6CIDR\<close> are the administrative range of a family,
  \<open>None\<close> when the subnet has no CIDR of that family. \<open>V4PodToIP\<close> and \<open>V6PodToIP\<close>
  are association lists because the registry ranges over them; the list order stands
  for the order in which Go visits the map.
\<close>

record Subnet =
  Protocol :: string
  V4CIDR :: "IPRange option"
  V4FreeIPList :: IPRangeList
  V4ReservedIPList :: IPRangeList
  V4PodToIP :: "(string \<times> nat) list"
  V4IPToPod :: "nat \<rightharpoonup> string"
  V6CIDR :: "IPRange option"
  V6FreeIPList :: IPRangeList
  V6ReservedIPList :: IPRangeList
  V6PodToIP :: "(string \<times> nat) list"
  V6IPToPod :: "nat \<rightharpoonup> string"
  PodToMac :: "string \<rightharpoonup> string"
  MacToPod :: "string \<rightharpoonup> string"

text \<open>
  The helpers and library calls of the registry whose code is neither under src/ nor
  described by the spec are taken as parameters, gathered in one record:
  \<^item> \<open>CheckProtocol\<close>, \<open>CheckDualCidrs\<close> (with its error), \<open>FirstSubnetIP\<close> and \<open>LastIP\<close>
    of package util; the last two give the address as a number of its family;
  \<^item> \<open>ParseCIDR\<close>: the error of \<open>net.ParseCIDR\<close>, the only result the registry reads;
  \<^item> \<open>splitIpsByProtocol\<close>, \<open>convertExcludeIps\<close> and \<open>NewSubnet\<close> of package ipam;
  \<^item> \<open>Subnet_GetPodAddress\<close>: the method \<open>Subnet.GetPodAddress\<close>, which returns a v4
    address, a v6 address, a MAC and a protocol for an owner; the registry only reads
    these four values;
  \<^item> \<open>toIP\<close> and \<open>ofIP\<close>: the conversions \<open>IP(s)\<close> and \<open>string(ip)\<close>, that is the
    reading of a string as an address and the text of an address;
  \<^item> \<open>Intn\<close> and \<open>GetRandomMac\<close>: the random draws, a position among \<open>n\<close> free
    addresses and a fresh MAC for a table of MACs in use.
\<close>

record Env =
  CheckProtocol :: "string \<Rightarrow> string"
  CheckDualCidrs :: "string \<Rightarrow> string \<times> string \<times> error option"
  ParseCIDR :: "string \<Rightarrow> error option"
  FirstSubnetIP :: "string \<Rightarrow> nat"
  LastIP :: "string \<Rightarrow> nat"
  splitIpsByProtocol :: "string list \<Rightarrow> string list \<times> string list"
  convertExcludeIps :: "string list \<Rightarrow> IPRangeList"
  NewSubnet :: "string \<Rightarrow> string \<Rightarrow> string list \<Rightarrow> error + Subnet"
  toIP :: "string \<Rightarrow> IP"
  ofIP :: "IP \<Rightarrow> string"
  Intn :: "nat \<Rightarrow> nat"
  GetRandomMac :: "(string \<rightharpoonup> string) \<Rightarrow> string"
  Subnet_GetPodAddress :: "Subnet \<Rightarrow> string \<Rightarrow> IP \<times> IP \<times> string \<times> string"

text \<open>The families a subnet supports, read from its protocol.\<close>

definition supportsV4 :: "Subnet \<Rightarrow> bool" where
  "supportsV4 subnet \<longleftrightarrow> Protocol subnet = ProtocolDual \<or> Protocol subnet = ProtocolIPv4"

definition supportsV6 :: "Subnet \<Rightarrow> bool" where
  "supportsV6 subnet \<longleftrightarrow> Protocol subnet = ProtocolDual \<or> Protocol subnet = ProtocolIPv6"

text \<open>
  Modelled from the spec: MAC handling is reuse-or-generate. A MAC given by the caller
  is taken as it is; with none given (the empty string) the owner's recorded MAC is
  reused, and an owner without one gets a generated MAC.
\<close>

definition chooseMac :: "Env \<Rightarrow> Subnet \<Rightarrow> string \<Rightarrow> string \<Rightarrow> string" where
  "chooseMac env subnet podName mac =
     (if mac \<noteq> '''' then mac
      else (case PodToMac subnet podName of
              Some m \<Rightarrow> m
            | None \<Rightarrow> GetRandomMac env (MacToPod subnet)))"

definition recordMac :: "Subnet \<Rightarrow> string \<Rightarrow> string \<Rightarrow> Subnet" where
  "recordMac subnet podName mac =
     subnet\<lparr>PodToMac := (PodToMac subnet)(podName \<mapsto> mac),
            MacToPod := (MacToPod subnet)(mac \<mapsto> podName)\<rparr>"

definition recordV4 :: "Subnet \<Rightarrow> string \<Rightarrow> nat \<Rightarrow> Subnet" where
  "recordV4 subnet podName a =
     subnet\<lparr>V4PodToIP := AList.update podName a (V4PodToIP subnet),
            V4IPToPod := (V4IPToPod subnet)(a \<mapsto> podName)\<rparr>"

definition recordV6 :: "Subnet \<Rightarrow> string \<Rightarrow> nat \<Rightarrow> Subnet" where
  "recordV6 subnet podName a =
     subnet\<lparr>V6PodToIP := AList.update podName a (V6PodToIP subnet),
            V6IPToPod := (V6IPToPod subnet)(a \<mapsto> podName)\<rparr>"

text \<open>
  Modelled from the spec: \<open>Subnet.GetStaticAddress\<close> is \<open>allocateStatic(owner, addr,
  mac, reconciling)\<close> of section 4.2, one family at a time.
  \<^item> The address must lie within the subnet's CIDR of its family, else
    \<open>OutOfRangeError\<close>; a string that is no address lies in no CIDR.
  \<^item> An address owned by a different owner gives \<open>ConflictError\<close>.
  \<^item> When reconciling (\<open>force\<close>), the call validates and records the bookkeeping again
    and leaves the free list alone.
  \<^item> Otherwise the address is taken out of the free list by \<open>allocateExact\<close>; an
    address that is not free is reported by its cause: \<open>OutOfRangeError\<close> when it is
    reserved, \<open>ConflictError\<close> otherwise.
  A failing call returns the address and MAC it was given and changes nothing.
\<close>

definition staticV4 ::
  "Env \<Rightarrow> Subnet \<Rightarrow> string \<Rightarrow> nat \<Rightarrow> string \<Rightarrow> bool \<Rightarrow> (IP \<times> string \<times> error option) \<times> Subnet" where
  "staticV4 env subnet podName a mac force =
     (if \<not> (case V4CIDR subnet of None \<Rightarrow> False | Some cidr \<Rightarrow> inRange cidr a)
      then ((V4 a, mac, Some OutOfRangeError), subnet)
      else if (case V4IPToPod subnet a of None \<Rightarrow> False | Some existPod \<Rightarrow> existPod \<noteq> podName)
      then ((V4 a, mac, Some ConflictError), subnet)
      else if force
      then (let m = chooseMac env subnet podName mac
            in ((V4 a, m, None), recordV4 (recordMac subnet podName m) podName a))
      else (case allocateExact (V4FreeIPList subnet) a of
              (True, newFreeList) \<Rightarrow>
                (let m = chooseMac env subnet podName mac
                 in ((V4 a, m, None),
                     recordV4 (recordMac (subnet\<lparr>V4FreeIPList := newFreeList\<rparr>) podName m)
                       podName a))
            | (False, _) \<Rightarrow>
                (if Contains (V4ReservedIPList subnet) a
                 then ((V4 a, mac, Some OutOfRangeError), subnet)
                 else ((V4 a, mac, Some ConflictError), subnet))))"

definition staticV6 ::
  "Env \<Rightarrow> Subnet \<Rightarrow> string \<Rightarrow> nat \<Rightarrow> string \<Rightarrow> bool \<Rightarrow> (IP \<times> string \<times> error option) \<times> Subnet" where
  "staticV6 env subnet podName a mac force =
     (if \<not> (case V6CIDR subnet of None \<Rightarrow> False | Some cidr \<Rightarrow> inRange cidr a)
      then ((V6 a, mac, Some OutOfRangeError), subnet)
      else if (case V6IPToPod subnet a of None \<Rightarrow> False | Some existPod \<Rightarrow> existPod \<noteq> podName)
      then ((V6 a, mac, Some ConflictError), subnet)
      else if force
      then (let m = chooseMac env subnet podName mac
            in ((V6 a, m, None), recordV6 (recordMac subnet podName m) podName a))
      else (case allocateExact (V6FreeIPList subnet) a of
              (True, newFreeList) \<Rightarrow>
                (let m = chooseMac env subnet podName mac
                 in ((V6 a, m, None),
                     recordV6 (recordMac (subnet\<lparr>V6FreeIPList := newFreeList\<rparr>) podName m)
                       podName a))
            | (False, _) \<Rightarrow>
                (if Contains (V6ReservedIPList subnet) a
                 then ((V6 a, mac, Some OutOfRangeError), subnet)
                 else ((V6 a, mac, Some ConflictError), subnet))))"

fun Subnet_GetStaticAddress ::
  "Env \<Rightarrow> Subnet \<Rightarrow> string \<Rightarrow> IP \<Rightarrow> string \<Rightarrow> bool \<Rightarrow> (IP \<times> string \<times> error option) \<times> Subnet" where
  "Subnet_GetStaticAddress env subnet podName NoIP mac force =
     ((NoIP, mac, Some OutOfRangeError), subnet)"
| "Subnet_GetStaticAddress env subnet podName (V4 a) mac force =
     staticV4 env subnet podName a mac force"
| "Subnet_GetStaticAddress env subnet podName (V6 a) mac force =
     staticV6 env subnet podName a mac force"

text \<open>
  Modelled from the spec: \<open>Subnet.GetRandomAddress\<close> is \<open>allocateRandom(owner)\<close> of
  section 4.2. An owner that already holds an address in the subnet gets its
  assignment back unchanged. Otherwise one address is drawn per supported family; if
  a family has none left the call fails with \<open>NoAvailableError\<close> and the subnet is as
  it was before the call (an address drawn for the other family is back in its free
  list). On success the MAC is chosen and the bookkeeping recorded.
\<close>

definition drawV4 :: "Env \<Rightarrow> Subnet \<Rightarrow> (IP \<times> Subnet) option" where
  "drawV4 env subnet =
     (if supportsV4 subnet
      then (case allocateAny (Intn env) (V4FreeIPList subnet) of
              None \<Rightarrow> None
            | Some (a, newFreeList) \<Rightarrow> Some (V4 a, subnet\<lparr>V4FreeIPList := newFreeList\<rparr>))
      else Some (NoIP, subnet))"

definition drawV6 :: "Env \<Rightarrow> Subnet \<Rightarrow> (IP \<times> Subnet) option" where
  "drawV6 env subnet =
     (if supportsV6 subnet
      then (case allocateAny (Intn env) (V6FreeIPList subnet) of
              None \<Rightarrow> None
            | Some (a, newFreeList) \<Rightarrow> Some (V6 a, subnet\<lparr>V6FreeIPList := newFreeList\<rparr>))
      else Some (NoIP, subnet))"

fun recordIP :: "Subnet \<Rightarrow> string \<Rightarrow> IP \<Rightarrow> Subnet" where
  "recordIP subnet podName NoIP = subnet"
| "recordIP subnet podName (V4 a) = recordV4 subnet podName a"
| "recordIP subnet podName (V6 a) = recordV6 subnet podName a"

definition heldV4 :: "Subnet \<Rightarrow> string \<Rightarrow> IP" where
  "heldV4 subnet podName =
     (case map_of (V4PodToIP subnet) podName of None \<Rightarrow> NoIP | Some a \<Rightarrow> V4 a)"

definition heldV6 :: "Subnet \<Rightarrow> string \<Rightarrow> IP" where
  "heldV6 subnet podName =
     (case map_of (V6PodToIP subnet) podName of None \<Rightarrow> NoIP | Some a \<Rightarrow> V6 a)"

definition heldMac :: "Subnet \<Rightarrow> string \<Rightarrow> string" where
  "heldMac subnet podName = (case PodToMac subnet podName of None \<Rightarrow> '''' | Some m \<Rightarrow> m)"

definition Subnet_GetRandomAddress ::
  "Env \<Rightarrow> Subnet \<Rightarrow> string \<Rightarrow> (IP \<times> IP \<times> string \<times> error option) \<times> Subnet" where
  "Subnet_GetRandomAddress env subnet podName =
     (if heldV4 subnet podName \<noteq> NoIP \<or> heldV6 subnet podName \<noteq> NoIP
      then ((heldV4 subnet podName, heldV6 subnet podName, heldMac subnet podName, None), subnet)
      else (case drawV4 env subnet of
              None \<Rightarrow> ((NoIP, NoIP, '''', Some NoAvailableError), subnet)
            | Some (v4IP, subnet1) \<Rightarrow>
                (case drawV6 env subnet1 of
                   None \<Rightarrow> ((NoIP, NoIP, '''', Some NoAvailableError), subnet)
                 | Some (v6IP, subnet2) \<Rightarrow>
                     (let m = chooseMac env subnet2 podName ''''
                      in ((v4IP, v6IP, m, None),
                          recordIP (recordIP (recordMac subnet2 podName m) podName v4IP)
                            podName v6IP)))))"

text \<open>
  Modelled from the spec: \<open>joinFreeWithReserve\<close> is not under src/. In the
  reconfiguration of section 4.3 the registry itself recomputes \<open>reserved\<close> (step 1)
  and resets \<open>free\<close> to the whole new CIDR (first half of step 2); the one call that
  stands between that and the revalidation of step 4 is \<open>joinFreeWithReserve\<close>, so it
  carries the rest of step 2 and step 3: for every family the subnet supports, the
  free list loses the reserved addresses and every address recorded for an owner.
\<close>

definition assignedRanges :: "(string \<times> nat) list \<Rightarrow> IPRangeList" where
  "assignedRanges podToIP = map (\<lambda>(podName, a). \<lparr>Start = a, End = a\<rparr>) podToIP"

definition joinFreeWithReserve :: "Subnet \<Rightarrow> Subnet" where
  "joinFreeWithReserve subnet =
     (let subnet1 =
            (if supportsV4 subnet
             then subnet\<lparr>V4FreeIPList :=
                    subtract (subtract (V4FreeIPList subnet) (V4ReservedIPList subnet))
                      (assignedRanges (V4PodToIP subnet))\<rparr>
             else subnet)
      in if supportsV6 subnet1
         then subnet1\<lparr>V6FreeIPList :=
                subtract (subtract (V6FreeIPList subnet1) (V6ReservedIPList subnet1))
                  (assignedRanges (V6PodToIP subnet1))\<rparr>
         else subnet1)"

section \<open>The registry (IPAM)\<close>

text \<open>
  \<open>IPAM.Subnets\<close> is a map from subnet name to subnet, kept as an association list
  read with \<open>map_of\<close>: \<open>GetPodAddress\<close> ranges over it. The map holds pointers, so a
  method that changes a subnet changes the registry's entry: the model writes the new
  subnet back under its name (\<open>AList.update\<close>). The mutex is not modelled: every
  function below is one call running alone.
\<close>

record IPAM =
  Subnets :: "(string \<times> Subnet) list"

record SubnetAddress =
  Subnet :: Subnet
  Ip :: string
  Mac :: string

definition NewIPAM :: IPAM where
  "NewIPAM = \<lparr>Subnets = []\<rparr>"

text \<open>
  \<open>IPAM.GetRandomAddress\<close>: the result is the four values Go returns (the error
  \<open>None\<close> for nil) and the registry after the call.
\<close>

definition GetRandomAddress ::
  "Env \<Rightarrow> IPAM \<Rightarrow> string \<Rightarrow> string \<Rightarrow> (string \<times> string \<times> string \<times> error option) \<times> IPAM" where
  "GetRandomAddress env ipam podName subnetName =
     (case map_of (Subnets ipam) subnetName of
        None \<Rightarrow> (('''', '''', '''', Some NoAvailableError), ipam)
      | Some subnet \<Rightarrow>
          (case Subnet_GetRandomAddress env subnet podName of
             ((v4IP, v6IP, mac, err), subnet') \<Rightarrow>
               ((ofIP env v4IP, ofIP env v6IP, mac, err),
                ipam\<lparr>Subnets := AList.update subnetName subnet' (Subnets ipam)\<rparr>)))"

text \<open>
  \<open>strings.Split\<close> with a separator of one character: the pieces between the
  separators, one piece (the whole string) when there is none.
\<close>

fun Split :: "string \<Rightarrow> char \<Rightarrow> string list" where
  "Split [] sep = [[]]"
| "Split (c # cs) sep =
     (if c = sep then [] # Split cs sep
      else (case Split cs sep of
              [] \<Rightarrow> [[c]]
            | piece # pieces \<Rightarrow> (c # piece) # pieces))"

text \<open>
  \<open>IPAM.GetStaticAddress\<close>. In the dual-stack branch the second \<open>:=\<close> declares
  \<open>v6IP\<close> only and assigns \<open>mac\<close> and \<open>err\<close> of the first call again, so the values
  returned are those of the second call. \<open>ips[1]\<close> panics when \<open>Split\<close> gives one piece:
  the result \<open>None\<close> is that panic.
\<close>

definition GetStaticAddress ::
  "Env \<Rightarrow> IPAM \<Rightarrow> string \<Rightarrow> string \<Rightarrow> string \<Rightarrow> string
     \<Rightarrow> ((string \<times> string \<times> string \<times> error option) \<times> IPAM) option" where
  "GetStaticAddress env ipam podName ip mac subnetName =
     (case map_of (Subnets ipam) subnetName of
        None \<Rightarrow> Some (('''', '''', '''', Some NoAvailableError), ipam)
      | Some subnet \<Rightarrow>
          (let protocol = CheckProtocol env ip
           in if protocol = ProtocolDual
              then (case Split ip CHR '','' of
                      ip0 # ip1 # _ \<Rightarrow>
                        (case Subnet_GetStaticAddress env subnet podName (toIP env ip0) mac False of
                           ((v4IP, mac1, err1), subnet1) \<Rightarrow>
                             (case Subnet_GetStaticAddress env subnet1 podName (toIP env ip1) mac1 False of
                                ((v6IP, mac2, err2), subnet2) \<Rightarrow>
                                  Some ((ofIP env v4IP, ofIP env v6IP, mac2, err2),
                                        ipam\<lparr>Subnets := AList.update subnetName subnet2 (Subnets ipam)\<rparr>)))
                    | _ \<Rightarrow> None)
              else (case Subnet_GetStaticAddress env subnet podName (toIP env ip) mac False of
                      ((ip', mac', err), subnet') \<Rightarrow>
                        (if protocol = ProtocolIPv4
                         then Some ((ofIP env ip', '''', mac', err),
                                    ipam\<lparr>Subnets := AList.update subnetName subnet' (Subnets ipam)\<rparr>)
                         else Some (('''', ofIP env ip', mac', err),
                                    ipam\<lparr>Subnets := AList.update subnetName subnet' (Subnets ipam)\<rparr>)))))"

text \<open>
  The two revalidation loops of \<open>AddOrUpdateSubnet\<close>, over the entries of
  \<open>V4PodToIP\<close> and \<open>V6PodToIP\<close> as they are when the loop starts. \<open>mac\<close> is
  \<open>subnet.PodToMac[podName]\<close>, the empty string for an owner without a MAC. The error
  of \<open>GetStaticAddress\<close> is logged and nothing else is done with it.
\<close>

fun revalidateV4 :: "Env \<Rightarrow> (string \<times> nat) list \<Rightarrow> Subnet \<Rightarrow> Subnet" where
  "revalidateV4 env [] subnet = subnet"
| "revalidateV4 env ((podName, ip) # rest) subnet =
     (let mac = heldMac subnet podName
      in revalidateV4 env rest
           (snd (Subnet_GetStaticAddress env subnet podName (V4 ip) mac True)))"

fun revalidateV6 :: "Env \<Rightarrow> (string \<times> nat) list \<Rightarrow> Subnet \<Rightarrow> Subnet" where
  "revalidateV6 env [] subnet = subnet"
| "revalidateV6 env ((podName, ip) # rest) subnet =
     (let mac = heldMac subnet podName
      in revalidateV6 env rest
           (snd (Subnet_GetStaticAddress env subnet podName (V6 ip) mac True)))"

text \<open>
  The two \<open>if protocol == ...\<close> blocks of the update path, and the path as a whole.
  The path assigns the protocol, the reserved list and the free list of a family; it
  assigns no CIDR of the subnet.
\<close>

definition updateV4 :: "Env \<Rightarrow> string \<Rightarrow> string list \<Rightarrow> Subnet \<Rightarrow> Subnet" where
  "updateV4 env v4cidrStr v4ExcludeIps subnet =
     (let subnet1 = subnet\<lparr>V4ReservedIPList := convertExcludeIps env v4ExcludeIps\<rparr>;
          firstIP = FirstSubnetIP env v4cidrStr;
          lastIP = LastIP env v4cidrStr;
          subnet2 = subnet1\<lparr>V4FreeIPList := [\<lparr>Start = firstIP, End = lastIP\<rparr>]\<rparr>;
          subnet3 = joinFreeWithReserve subnet2
      in revalidateV4 env (V4PodToIP subnet3) subnet3)"

definition updateV6 :: "Env \<Rightarrow> string \<Rightarrow> string list \<Rightarrow> Subnet \<Rightarrow> Subnet" where
  "updateV6 env v6cidrStr v6ExcludeIps subnet =
     (let subnet1 = subnet\<lparr>V6ReservedIPList := convertExcludeIps env v6ExcludeIps\<rparr>;
          firstIP = FirstSubnetIP env v6cidrStr;
          lastIP = LastIP env v6cidrStr;
          subnet2 = subnet1\<lparr>V6FreeIPList := [\<lparr>Start = firstIP, End = lastIP\<rparr>]\<rparr>;
          subnet3 = joinFreeWithReserve subnet2
      in revalidateV6 env (V6PodToIP subnet3) subnet3)"

definition updateSubnet :: "Env \<Rightarrow> string \<Rightarrow> string \<Rightarrow> string \<Rightarrow> string list \<Rightarrow> string list \<Rightarrow> Subnet \<Rightarrow> Subnet" where
  "updateSubnet env protocol v4cidrStr v6cidrStr v4ExcludeIps v6ExcludeIps subnet =
     (let subnet1 = subnet\<lparr>Protocol := protocol\<rparr>;
          subnet2 = (if protocol = ProtocolDual \<or> protocol = ProtocolIPv4
                     then updateV4 env v4cidrStr v4ExcludeIps subnet1 else subnet1)
      in if protocol = ProtocolDual \<or> protocol = ProtocolIPv6
         then updateV6 env v6cidrStr v6ExcludeIps subnet2 else subnet2)"

text \<open>
  The CIDR check at the head of \<open>AddOrUpdateSubnet\<close>: the two CIDR strings and the
  error of \<open>CheckDualCidrs\<close> for a dual-stack string, of \<open>net.ParseCIDR\<close> otherwise.
\<close>

definition checkCIDR :: "Env \<Rightarrow> string \<Rightarrow> string \<times> string \<times> error option" where
  "checkCIDR env cidrStr =
     (if CheckProtocol env cidrStr = ProtocolDual then CheckDualCidrs env cidrStr
      else (cidrStr, cidrStr, ParseCIDR env cidrStr))"

text \<open>\<open>IPAM.AddOrUpdateSubnet\<close>: the error returned and the registry after the call.\<close>

definition AddOrUpdateSubnet ::
  "Env \<Rightarrow> IPAM \<Rightarrow> string \<Rightarrow> string \<Rightarrow> string list \<Rightarrow> error option \<times> IPAM" where
  "AddOrUpdateSubnet env ipam name cidrStr excludeIps =
     (let protocol = CheckProtocol env cidrStr
      in case checkCIDR env cidrStr of
           (v4cidrStr, v6cidrStr, Some err) \<Rightarrow> (Some InvalidCIDRError, ipam)
         | (v4cidrStr, v6cidrStr, None) \<Rightarrow>
             (case splitIpsByProtocol env excludeIps of
                (v4ExcludeIps, v6ExcludeIps) \<Rightarrow>
                  (case map_of (Subnets ipam) name of
                     Some subnet \<Rightarrow>
                       (None,
                        ipam\<lparr>Subnets :=
                          AList.update name
                            (updateSubnet env protocol v4cidrStr v6cidrStr v4ExcludeIps v6ExcludeIps subnet)
                            (Subnets ipam)\<rparr>)
                   | None \<Rightarrow>
                       (case NewSubnet env name cidrStr excludeIps of
                          Inl err \<Rightarrow> (Some err, ipam)
                        | Inr subnet \<Rightarrow>
                            (None, ipam\<lparr>Subnets := AList.update name subnet (Subnets ipam)\<rparr>)))))"

text \<open>\<open>IPAM.DeleteSubnet\<close>: Go's \<open>delete\<close> on the map; it returns nothing.\<close>

definition DeleteSubnet :: "IPAM \<Rightarrow> string \<Rightarrow> IPAM" where
  "DeleteSubnet ipam subnetName = ipam\<lparr>Subnets := AList.delete subnetName (Subnets ipam)\<rparr>"

text \<open>
  \<open>IPAM.GetPodAddress\<close>: the loop over the registry's subnets appends one entry for
  a subnet for which \<open>Subnet.GetPodAddress\<close> reports the protocol IPv4 or IPv6, and
  two entries otherwise.
\<close>

definition podEntries :: "Env \<Rightarrow> Subnet \<Rightarrow> string \<Rightarrow> SubnetAddress list" where
  "podEntries env subnet podName =
     (case Subnet_GetPodAddress env subnet podName of
        (v4IP, v6IP, mac, protocol) \<Rightarrow>
          (if protocol = ProtocolIPv4
           then [\<lparr>Subnet = subnet, Ip = ofIP env v4IP, Mac = mac\<rparr>]
           else if protocol = ProtocolIPv6
           then [\<lparr>Subnet = subnet, Ip = ofIP env v6IP, Mac = mac\<rparr>]
           else [\<lparr>Subnet = subnet, Ip = ofIP env v4IP, Mac = mac\<rparr>,
                 \<lparr>Subnet = subnet, Ip = ofIP env v6IP, Mac = mac\<rparr>]))"

fun collectAddresses :: "Env \<Rightarrow> string \<Rightarrow> (string \<times> Subnet) list \<Rightarrow> SubnetAddress list \<Rightarrow> SubnetAddress list" where
  "collectAddresses env podName [] addresses = addresses"
| "collectAddresses env podName ((name, subnet) # rest) addresses =
     collectAddresses env podName rest (addresses @ podEntries env subnet podName)"

definition GetPodAddress :: "Env \<Rightarrow> IPAM \<Rightarrow> string \<Rightarrow> SubnetAddress list" where
  "GetPodAddress env ipam podName = collectAddresses env podName (Subnets ipam) []"

text \<open>The error among the four values the two allocation calls return.\<close>

definition errorOf :: "string \<times> string \<times> string \<times> error option \<Rightarrow> error option" where
  "errorOf result = (case result of (v4IP, v6IP, mac, err) \<Rightarrow> err)"

section \<open>Example values\<close>

text \<open>
  A configuration and a listing for the gateway query: the service range
  \<open>10.96.0.0/12\<close>, no node-local DNS address, one IPv4 and one IPv6 subnet.
\<close>

definition exampleParses :: "string \<Rightarrow> bool" where
  "exampleParses s \<longleftrightarrow> s = ''169.254.20.10''"

definition exampleConfig :: Configuration where
  "exampleConfig = \<lparr>ServiceClusterIPRange = ''10.96.0.0/12'', NodeLocalDNSIP = ''''\<rparr>"

definition exampleListed :: "KSubnet list" where
  "exampleListed =
     [\<lparr>Spec_Protocol = ''IPv4'', Spec_CIDRBlock = ''10.16.0.0/16''\<rparr>,
      \<lparr>Spec_Protocol = ''IPv6'', Spec_CIDRBlock = ''fd00:10:16::/64''\<rparr>]"

text \<open>
  An instance of the helpers, tabulated on the strings the examples use. Addresses
  are written as numbers: \<open>10.0.0.0\<close> is 167772160 and \<open>fd00::\<close> is
  336294682933583715844663186250927177728.
\<close>

definition exampleCheckProtocol :: "string \<Rightarrow> string" where
  "exampleCheckProtocol s =
     (if s = ''10.0.0.0/24'' \<or> s = ''10.0.0.0/25'' \<or> s = ''10.0.0.100'' then ''IPv4''
      else if s = ''10.1.0.5,fd00::5'' \<or> s = ''10.0.0.0/25,fd00::/121'' then ''Dual''
      else '''')"

definition exampleCheckDualCidrs :: "string \<Rightarrow> string \<times> string \<times> error option" where
  "exampleCheckDualCidrs s =
     (if s = ''10.0.0.0/25,fd00::/121'' then (''10.0.0.0/25'', ''fd00::/121'', None)
      else (s, s, Some (OtherError ''invalid dual-stack cidr'')))"

definition exampleParseCIDR :: "string \<Rightarrow> error option" where
  "exampleParseCIDR s =
     (if s = ''10.0.0.0/24'' \<or> s = ''10.0.0.0/25'' \<or> s = ''fd00::/121'' then None
      else Some (OtherError ''invalid CIDR address''))"

definition exampleFirstSubnetIP :: "string \<Rightarrow> nat" where
  "exampleFirstSubnetIP s =
     (if s = ''10.0.0.0/24'' \<or> s = ''10.0.0.0/25'' then 167772161
      else if s = ''fd00::/121'' then 336294682933583715844663186250927177729
      else 0)"

definition exampleLastIP :: "string \<Rightarrow> nat" where
  "exampleLastIP s =
     (if s = ''10.0.0.0/24'' then 167772414
      else if s = ''10.0.0.0/25'' then 167772286
      else if s = ''fd00::/121'' then 336294682933583715844663186250927177854
      else 0)"

definition exampleToIP :: "string \<Rightarrow> IP" where
  "exampleToIP s =
     (if s = ''10.0.0.1'' then V4 167772161
      else if s = ''10.0.0.100'' then V4 167772260
      else if s = ''10.0.1.7'' then V4 167772423
      else if s = ''10.1.0.5'' then V4 167837701
      else if s = ''fd00::5'' then V6 336294682933583715844663186250927177733
      else NoIP)"

fun exampleOfIP :: "IP \<Rightarrow> string" where
  "exampleOfIP NoIP = ''''"
| "exampleOfIP (V4 a) =
     (if a = 167772161 then ''10.0.0.1''
      else if a = 167772260 then ''10.0.0.100''
      else if a = 167772423 then ''10.0.1.7''
      else if a = 167837701 then ''10.1.0.5''
      else ''0.0.0.0'')"
| "exampleOfIP (V6 a) =
     (if a = 336294682933583715844663186250927177733 then ''fd00::5'' else ''::'')"

fun exampleRanges :: "string list \<Rightarrow> IPRangeList" where
  "exampleRanges [] = []"
| "exampleRanges (s # rest) =
     (case exampleToIP s of
        NoIP \<Rightarrow> exampleRanges rest
      | V4 a \<Rightarrow> \<lparr>Start = a, End = a\<rparr> # exampleRanges rest
      | V6 a \<Rightarrow> \<lparr>Start = a, End = a\<rparr> # exampleRanges rest)"

definition exampleSplitIps :: "string list \<Rightarrow> string list \<times> string list" where
  "exampleSplitIps ips =
     (filter (\<lambda>s. case exampleToIP s of V4 a \<Rightarrow> True | _ \<Rightarrow> False) ips,
      filter (\<lambda>s. case exampleToIP s of V6 a \<Rightarrow> True | _ \<Rightarrow> False) ips)"

text \<open>
  Two subnets. \<open>exampleV4Subnet\<close> is an IPv4 subnet whose CIDR is \<open>10.0.0.0/24\<close>, with
  owner \<open>a\<close> at \<open>10.0.0.100\<close> and owner \<open>b\<close> at \<open>10.0.1.7\<close>, an address outside that
  CIDR. \<open>exampleDualSubnet\<close> is a dual-stack subnet (\<open>10.0.0.0/24\<close> and \<open>fd00::/120\<close>)
  with no owner.
\<close>

definition exampleV4Subnet :: Subnet where
  "exampleV4Subnet =
     \<lparr>Protocol = ''IPv4'',
      V4CIDR = Some \<lparr>Start = 167772160, End = 167772415\<rparr>,
      V4FreeIPList = [\<lparr>Start = 167772161, End = 167772259\<rparr>, \<lparr>Start = 167772261, End = 167772414\<rparr>],
      V4ReservedIPList = [],
      V4PodToIP = [(''a'', 167772260), (''b'', 167772423)],
      V4IPToPod = [167772260 \<mapsto> ''a'', 167772423 \<mapsto> ''b''],
      V6CIDR = None,
      V6FreeIPList = [],
      V6ReservedIPList = [],
      V6PodToIP = [],
      V6IPToPod = Map.empty,
      PodToMac = [''a'' \<mapsto> ''00:00:00:53:6b:b6'', ''b'' \<mapsto> ''00:00:00:9a:01:07''],
      MacToPod = [''00:00:00:53:6b:b6'' \<mapsto> ''a'', ''00:00:00:9a:01:07'' \<mapsto> ''b'']\<rparr>"

definition exampleDualSubnet :: Subnet where
  "exampleDualSubnet =
     \<lparr>Protocol = ''Dual'',
      V4CIDR = Some \<lparr>Start = 167772160, End = 167772415\<rparr>,
      V4FreeIPList = [\<lparr>Start = 167772161, End = 167772414\<rparr>],
      V4ReservedIPList = [],
      V4PodToIP = [],
      V4IPToPod = Map.empty,
      V6CIDR = Some \<lparr>Start = 336294682933583715844663186250927177728,
                      End = 336294682933583715844663186250927177983\<rparr>,
      V6FreeIPList = [\<lparr>Start = 336294682933583715844663186250927177729,
                        End = 336294682933583715844663186250927177982\<rparr>],
      V6ReservedIPList = [],
      V6PodToIP = [],
      V6IPToPod = Map.empty,
      PodToMac = Map.empty,
      MacToPod = Map.empty\<rparr>"

definition exampleNewSubnet :: "string \<Rightarrow> string \<Rightarrow> string list \<Rightarrow> error + Subnet" where
  "exampleNewSubnet name cidrStr excludeIps =
     (if cidrStr = ''10.0.0.0/24''
      then Inr (exampleDualSubnet\<lparr>Protocol := ''IPv4'', V6CIDR := None, V6FreeIPList := [],
                  V4ReservedIPList := exampleRanges excludeIps\<rparr>)
      else Inl InvalidCIDRError)"

text \<open>
  The instance of \<open>Subnet.GetPodAddress\<close> in the examples: the v4 and v6 address the
  subnet records for the owner (no address when none is recorded), the owner's MAC
  and the subnet's protocol.
\<close>

definition exampleGetPodAddress :: "Subnet \<Rightarrow> string \<Rightarrow> IP \<times> IP \<times> string \<times> string" where
  "exampleGetPodAddress subnet podName =
     (heldV4 subnet podName, heldV6 subnet podName, heldMac subnet podName, Protocol subnet)"

definition exampleIntn :: "nat \<Rightarrow> nat" where
  "exampleIntn n = 0"

definition exampleRandomMac :: "(string \<rightharpoonup> string) \<Rightarrow> string" where
  "exampleRandomMac macs = ''00:00:00:11:22:33''"

definition exampleEnv :: Env where
  "exampleEnv =
     \<lparr>CheckProtocol = exampleCheckProtocol,
      CheckDualCidrs = exampleCheckDualCidrs,
      ParseCIDR = exampleParseCIDR,
      FirstSubnetIP = exampleFirstSubnetIP,
      LastIP = exampleLastIP,
      splitIpsByProtocol = exampleSplitIps,
      convertExcludeIps = exampleRanges,
      NewSubnet = exampleNewSubnet,
      toIP = exampleToIP,
      ofIP = exampleOfIP,
      Intn = exampleIntn,
      GetRandomMac = exampleRandomMac,
      Subnet_GetPodAddress = exampleGetPodAddress\<rparr>"

definition exampleIPAM :: IPAM where
  "exampleIPAM = \<lparr>Subnets = [(''x'', exampleV4Subnet), (''dual'', exampleDualSubnet)]\<rparr>"

text \<open>
  A registry whose one subnet, \<open>full\<close>, is \<open>exampleV4Subnet\<close> with nothing left in its
  free list.
\<close>

definition exampleFullSubnet :: Subnet where
  "exampleFullSubnet = exampleV4Subnet\<lparr>V4FreeIPList := []\<rparr>"

definition exampleFullIPAM :: IPAM where
  "exampleFullIPAM = \<lparr>Subnets = [(''full'', exampleFullSubnet)]\<rparr>"

text \<open>
  The subnet \<open>x\<close> of the example registry after its reconfiguration to
  \<open>10.0.0.0/25\<close> with an empty exclusion list.
\<close>

definition exampleUpdated :: Subnet where
  "exampleUpdated =
     updateSubnet exampleEnv ''IPv4'' ''10.0.0.0/25'' ''10.0.0.0/25'' [] [] exampleV4Subnet"

section \<open>Properties of the gateway query\<close>

lemma appendCIDRs_filter:
  "appendCIDRs protocol subnets ret =
     ret @ map Spec_CIDRBlock (filter (\<lambda>subnet. Spec_Protocol subnet = protocol) subnets)"
  by (induction subnets arbitrary: ret) simp_all

text \<open>
  Claim C7, as stated, fails: the result of \<open>getSubnetsCIDR\<close> is not exactly the CIDRs
  of the administered subnets of the requested protocol. With the example
  configuration and listing, the query for IPv4 returns the service range
  \<open>10.96.0.0/12\<close> ahead of the one IPv4 subnet, and that range is the CIDR of no listed
  subnet.
\<close>

theorem getSubnetsCIDR_service_range_counterexample:
  "getSubnetsCIDR exampleParses exampleConfig (Inr exampleListed) ProtocolIPv4 =
     Inr [''10.96.0.0/12'', ''10.16.0.0/16'']
   \<and> ''10.96.0.0/12'' \<notin> Spec_CIDRBlock ` set exampleListed"
  by (simp add: getSubnetsCIDR_def exampleConfig_def exampleListed_def ProtocolIPv4_def)

text \<open>
  Claim C7, amended: for every protocol, \<open>getSubnetsCIDR\<close> returns the configured
  service cluster IP range, then the node-local DNS address when it is set and parses
  as an IP address, then exactly the CIDR blocks of the listed subnets whose protocol is
  the requested one, in listing order; when listing the subnets fails it returns that
  error. The query is a function of the configuration and the listing, and writes
  neither.
\<close>

theorem getSubnetsCIDR_entries:
  "getSubnetsCIDR parses config (Inr subnets) protocol =
     Inr (ServiceClusterIPRange config #
          (if NodeLocalDNSIP config \<noteq> '''' \<and> parses (NodeLocalDNSIP config)
           then [NodeLocalDNSIP config] else []) @
          map Spec_CIDRBlock (filter (\<lambda>subnet. Spec_Protocol subnet = protocol) subnets))
   \<and> getSubnetsCIDR parses config (Inl err) protocol = Inl err"
  by (simp add: getSubnetsCIDR_def appendCIDRs_filter)

section \<open>Properties of the registry\<close>

text \<open>
  Claim C8: for every subnet name, \<open>DeleteSubnet\<close> removes the entry of that name from
  the registry and leaves the subnet found under every other name as it was, with its
  free lists, reserved lists and bookkeeping maps. \<open>DeleteSubnet\<close> has no error
  result: it returns a registry for every registry and name.
\<close>

theorem DeleteSubnet_frame:
  "map_of (Subnets (DeleteSubnet ipam subnetName)) subnetName = None
   \<and> (\<forall>name. name \<noteq> subnetName \<longrightarrow>
          map_of (Subnets (DeleteSubnet ipam subnetName)) name = map_of (Subnets ipam) name)"
  by (simp add: DeleteSubnet_def delete_conv')

theorem DeleteSubnet_frame_witness:
  "map_of (Subnets exampleIPAM) ''x'' = Some exampleV4Subnet
   \<and> map_of (Subnets (DeleteSubnet exampleIPAM ''x'')) ''x'' = None
   \<and> map_of (Subnets (DeleteSubnet exampleIPAM ''x'')) ''dual'' = Some exampleDualSubnet"
  using DeleteSubnet_frame [of exampleIPAM "''x''"]
  by (simp add: exampleIPAM_def)

text \<open>
  Claim C10: for every registry and every subnet name that is not in it,
  \<open>GetRandomAddress\<close> and \<open>GetStaticAddress\<close> return the empty string for the v4
  address, the v6 address and the MAC, together with the error, and the registry after
  the call is the registry before it.
\<close>

theorem missing_subnet_result:
  "map_of (Subnets ipam) subnetName = None \<Longrightarrow>
     GetRandomAddress env ipam podName subnetName =
       (('''', '''', '''', Some NoAvailableError), ipam)
     \<and> GetStaticAddress env ipam podName ip mac subnetName =
       Some (('''', '''', '''', Some NoAvailableError), ipam)"
  by (simp add: GetRandomAddress_def GetStaticAddress_def)

theorem missing_subnet_result_witness:
  "map_of (Subnets exampleIPAM) ''y'' = None
   \<and> GetRandomAddress exampleEnv exampleIPAM ''a'' ''y'' =
       (('''', '''', '''', Some NoAvailableError), exampleIPAM)
   \<and> GetStaticAddress exampleEnv exampleIPAM ''a'' ''10.0.0.1'' '''' ''y'' =
       Some (('''', '''', '''', Some NoAvailableError), exampleIPAM)"
proof -
  have h: "map_of (Subnets exampleIPAM) ''y'' = None"
    by (simp add: exampleIPAM_def)
  show ?thesis
    using h missing_subnet_result [OF h, of exampleEnv "''a''" "''10.0.0.1''" "''''"]
    by simp
qed

text \<open>
  Claim C3: for every registry, \<open>AddOrUpdateSubnet\<close> with a CIDR string that fails to
  parse (\<open>CheckDualCidrs\<close> reports an error for a dual-stack string, \<open>net.ParseCIDR\<close>
  for any other) returns \<open>InvalidCIDRError\<close> and the registry is unchanged: a subnet
  registered under the same name keeps its free lists, reserved lists and bookkeeping
  maps.
\<close>

theorem AddOrUpdateSubnet_invalid_cidr:
  assumes "CheckProtocol env cidrStr = ProtocolDual \<longrightarrow> snd (snd (CheckDualCidrs env cidrStr)) \<noteq> None"
    and "CheckProtocol env cidrStr \<noteq> ProtocolDual \<longrightarrow> ParseCIDR env cidrStr \<noteq> None"
  shows "AddOrUpdateSubnet env ipam name cidrStr excludeIps = (Some InvalidCIDRError, ipam)"
proof -
  have "\<exists>v4 v6 err. checkCIDR env cidrStr = (v4, v6, Some err)"
  proof (cases "CheckProtocol env cidrStr = ProtocolDual")
    case True
    with assms(1) show ?thesis
      by (cases "CheckDualCidrs env cidrStr") (auto simp: checkCIDR_def)
  next
    case False
    with assms(2) show ?thesis
      by (auto simp: checkCIDR_def)
  qed
  then obtain v4 v6 err where c: "checkCIDR env cidrStr = (v4, v6, Some err)"
    by blast
  show ?thesis by (simp add: AddOrUpdateSubnet_def c)
qed

theorem AddOrUpdateSubnet_invalid_cidr_witness:
  "CheckProtocol exampleEnv ''not-a-cidr'' \<noteq> ProtocolDual
   \<and> ParseCIDR exampleEnv ''not-a-cidr'' \<noteq> None
   \<and> map_of (Subnets exampleIPAM) ''x'' = Some exampleV4Subnet
   \<and> AddOrUpdateSubnet exampleEnv exampleIPAM ''x'' ''not-a-cidr'' [] =
       (Some InvalidCIDRError, exampleIPAM)"
proof -
  have p: "CheckProtocol exampleEnv ''not-a-cidr'' \<noteq> ProtocolDual"
    by (simp add: exampleEnv_def exampleCheckProtocol_def ProtocolDual_def)
  have e: "ParseCIDR exampleEnv ''not-a-cidr'' \<noteq> None"
    by (simp add: exampleEnv_def exampleParseCIDR_def)
  have s: "map_of (Subnets exampleIPAM) ''x'' = Some exampleV4Subnet"
    by (simp add: exampleIPAM_def)
  show ?thesis
    using p e s AddOrUpdateSubnet_invalid_cidr [of exampleEnv "''not-a-cidr''" exampleIPAM "''x''" "[]"]
    by simp
qed

section \<open>Running out of addresses\<close>

lemma Contains_iff: "Contains l a \<longleftrightarrow> (\<exists>r \<in> set l. inRange r a)"
  by (simp add: Contains_def list_ex_iff)

lemma nothing_free_size:
  assumes "\<forall>a. \<not> Contains l a"
  shows "sum_list (map rangeSize l) = 0"
proof -
  have "rangeSize r = 0" if "r \<in> set l" for r
  proof -
    from assms that have "\<not> inRange r (Start r)"
      by (auto simp: Contains_iff)
    then show ?thesis
      by (simp add: inRange_def rangeSize_def)
  qed
  then show ?thesis by simp
qed

lemma allocateAny_exhausted: "\<forall>a. \<not> Contains l a \<Longrightarrow> allocateAny rnd l = None"
  by (simp add: allocateAny_def nothing_free_size)

lemma drawV4_keeps:
  "drawV4 env subnet = Some (ip, subnet1) \<Longrightarrow>
     Protocol subnet1 = Protocol subnet \<and> V6FreeIPList subnet1 = V6FreeIPList subnet"
  by (auto simp: drawV4_def split: if_splits option.splits)

lemma Subnet_GetRandomAddress_exhausted:
  assumes "heldV4 subnet podName = NoIP" and "heldV6 subnet podName = NoIP"
    and "supportsV4 subnet \<and> (\<forall>a. \<not> Contains (V4FreeIPList subnet) a)
         \<or> supportsV6 subnet \<and> (\<forall>a. \<not> Contains (V6FreeIPList subnet) a)"
  shows "Subnet_GetRandomAddress env subnet podName =
           ((NoIP, NoIP, '''', Some NoAvailableError), subnet)"
proof (cases "drawV4 env subnet")
  case None
  with assms(1,2) show ?thesis
    by (simp add: Subnet_GetRandomAddress_def)
next
  case (Some drawn)
  obtain v4IP subnet1 where d: "drawn = (v4IP, subnet1)"
    by (cases drawn)
  from Some d assms(3) have six: "supportsV6 subnet \<and> (\<forall>a. \<not> Contains (V6FreeIPList subnet) a)"
    by (auto simp: drawV4_def allocateAny_exhausted)
  from Some d have k: "Protocol subnet1 = Protocol subnet" "V6FreeIPList subnet1 = V6FreeIPList subnet"
    using drawV4_keeps by blast+
  from six k have "drawV6 env subnet1 = None"
    by (simp add: drawV6_def supportsV6_def allocateAny_exhausted)
  with Some d assms(1,2) show ?thesis
    by (simp add: Subnet_GetRandomAddress_def)
qed

text \<open>
  Claim C6: for every owner and every subnet name that is not in the registry, both
  \<open>GetRandomAddress\<close> and \<open>GetStaticAddress\<close> fail with \<open>NoAvailableError\<close>; and
  random allocation fails with the same error when the subnet is there, the owner
  holds no address in it, and a family the subnet supports has no free address left.
\<close>

theorem NoAvailableError_cases:
  "(map_of (Subnets ipam) subnetName = None \<longrightarrow>
      errorOf (fst (GetRandomAddress env ipam podName subnetName)) = Some NoAvailableError
      \<and> map_option (\<lambda>r. errorOf (fst r)) (GetStaticAddress env ipam podName ip mac subnetName)
          = Some (Some NoAvailableError))
   \<and> (\<forall>subnet.
        map_of (Subnets ipam) subnetName = Some subnet
        \<and> heldV4 subnet podName = NoIP \<and> heldV6 subnet podName = NoIP
        \<and> (supportsV4 subnet \<and> (\<forall>a. \<not> Contains (V4FreeIPList subnet) a)
            \<or> supportsV6 subnet \<and> (\<forall>a. \<not> Contains (V6FreeIPList subnet) a))
        \<longrightarrow> errorOf (fst (GetRandomAddress env ipam podName subnetName)) = Some NoAvailableError)"
proof (intro conjI impI allI)
  assume "map_of (Subnets ipam) subnetName = None"
  then show "errorOf (fst (GetRandomAddress env ipam podName subnetName)) = Some NoAvailableError"
    by (simp add: GetRandomAddress_def errorOf_def)
next
  assume "map_of (Subnets ipam) subnetName = None"
  then show "map_option (\<lambda>r. errorOf (fst r)) (GetStaticAddress env ipam podName ip mac subnetName)
          = Some (Some NoAvailableError)"
    by (simp add: GetStaticAddress_def errorOf_def)
next
  fix subnet
  assume a: "map_of (Subnets ipam) subnetName = Some subnet
        \<and> heldV4 subnet podName = NoIP \<and> heldV6 subnet podName = NoIP
        \<and> (supportsV4 subnet \<and> (\<forall>a. \<not> Contains (V4FreeIPList subnet) a)
            \<or> supportsV6 subnet \<and> (\<forall>a. \<not> Contains (V6FreeIPList subnet) a))"
  then have "Subnet_GetRandomAddress env subnet podName =
           ((NoIP, NoIP, '''', Some NoAvailableError), subnet)"
    by (intro Subnet_GetRandomAddress_exhausted) blast+
  with a show "errorOf (fst (GetRandomAddress env ipam podName subnetName)) = Some NoAvailableError"
    by (simp add: GetRandomAddress_def errorOf_def)
qed

theorem NoAvailableError_cases_witness:
  "map_of (Subnets exampleIPAM) ''y'' = None
   \<and> errorOf (fst (GetRandomAddress exampleEnv exampleIPAM ''c'' ''y'')) = Some NoAvailableError
   \<and> map_option (\<lambda>r. errorOf (fst r)) (GetStaticAddress exampleEnv exampleIPAM ''c'' ''10.0.0.1'' '''' ''y'')
       = Some (Some NoAvailableError)
   \<and> map_of (Subnets exampleFullIPAM) ''full'' = Some exampleFullSubnet
   \<and> heldV4 exampleFullSubnet ''c'' = NoIP \<and> heldV6 exampleFullSubnet ''c'' = NoIP
   \<and> supportsV4 exampleFullSubnet \<and> V4FreeIPList exampleFullSubnet = []
   \<and> errorOf (fst (GetRandomAddress exampleEnv exampleFullIPAM ''c'' ''full'')) = Some NoAvailableError"
proof -
  have m: "map_of (Subnets exampleIPAM) ''y'' = None"
    by (simp add: exampleIPAM_def)
  have f: "map_of (Subnets exampleFullIPAM) ''full'' = Some exampleFullSubnet"
    by (simp add: exampleFullIPAM_def)
  have h: "heldV4 exampleFullSubnet ''c'' = NoIP" "heldV6 exampleFullSubnet ''c'' = NoIP"
    by (simp_all add: heldV4_def heldV6_def exampleFullSubnet_def exampleV4Subnet_def)
  have s: "supportsV4 exampleFullSubnet" "V4FreeIPList exampleFullSubnet = []"
    by (simp_all add: supportsV4_def exampleFullSubnet_def exampleV4Subnet_def ProtocolIPv4_def)
  have n: "\<forall>a. \<not> Contains (V4FreeIPList exampleFullSubnet) a"
    by (simp add: s Contains_def)
  show ?thesis
    using m f h s n
      NoAvailableError_cases [of exampleIPAM "''y''" exampleEnv "''c''" "''10.0.0.1''" "''''"]
      NoAvailableError_cases [of exampleFullIPAM "''full''" exampleEnv "''c''"]
    by blast
qed

section \<open>Reconfiguration of an existing subnet\<close>

subsection \<open>Subtraction on range lists\<close>

lemma inRange_subtractRange:
  "(\<exists>p \<in> set (subtractRange r x). inRange p a) \<longleftrightarrow> inRange r a \<and> \<not> inRange x a"
proof -
  have "(\<exists>p \<in> set (subtractRange r x). inRange p a) \<longleftrightarrow>
          (Start r < Start x \<and> Start r \<le> a \<and> a \<le> min (End r) (Start x - 1)) \<or>
          (End x < End r \<and> max (Start r) (End x + 1) \<le> a \<and> a \<le> End r)"
    by (cases "Start r < Start x"; cases "End x < End r")
       (simp_all add: subtractRange_def inRange_def)
  also have "\<dots> \<longleftrightarrow> inRange r a \<and> \<not> inRange x a"
    unfolding inRange_def by arith
  finally show ?thesis .
qed

lemma Contains_subtract_one:
  "Contains (concat (map (\<lambda>r. subtractRange r x) l)) a \<longleftrightarrow> Contains l a \<and> \<not> inRange x a"
  using inRange_subtractRange by (auto simp: Contains_iff)

lemma Contains_subtract:
  "Contains (subtract l others) a \<longleftrightarrow> Contains l a \<and> \<not> Contains others a"
  unfolding subtract_def
proof (induction others arbitrary: l)
  case Nil
  show ?case by (simp add: Contains_iff)
next
  case (Cons x xs)
  show ?case by (simp add: Cons.IH Contains_subtract_one) (auto simp: Contains_iff)
qed

lemma Contains_assignedRanges:
  "Contains (assignedRanges podToIP) a \<longleftrightarrow> a \<in> snd ` set podToIP"
  by (force simp: Contains_iff assignedRanges_def inRange_def image_iff split: prod.splits)

subsection \<open>What joinFreeWithReserve changes\<close>

lemma joinFreeWithReserve_keeps:
  "Protocol (joinFreeWithReserve s) = Protocol s"
  "V4PodToIP (joinFreeWithReserve s) = V4PodToIP s"
  "V6PodToIP (joinFreeWithReserve s) = V6PodToIP s"
  "V4IPToPod (joinFreeWithReserve s) = V4IPToPod s"
  "V6IPToPod (joinFreeWithReserve s) = V6IPToPod s"
  "PodToMac (joinFreeWithReserve s) = PodToMac s"
  by (simp_all add: joinFreeWithReserve_def Let_def)

lemma supports_free_update:
  "supportsV6 (s\<lparr>V4FreeIPList := l\<rparr>) = supportsV6 s"
  "supportsV4 (s\<lparr>V6FreeIPList := l\<rparr>) = supportsV4 s"
  by (simp_all add: supportsV4_def supportsV6_def)

lemma joinFreeWithReserve_shrinks:
  "Contains (V4FreeIPList (joinFreeWithReserve s)) a \<Longrightarrow> Contains (V4FreeIPList s) a"
  "Contains (V6FreeIPList (joinFreeWithReserve s)) a \<Longrightarrow> Contains (V6FreeIPList s) a"
  by (auto simp: joinFreeWithReserve_def Let_def supports_free_update Contains_subtract
      split: if_splits)

lemma joinFreeWithReserve_V4_assigned:
  "supportsV4 s \<Longrightarrow> a \<in> snd ` set (V4PodToIP s) \<Longrightarrow>
     \<not> Contains (V4FreeIPList (joinFreeWithReserve s)) a"
  by (simp add: joinFreeWithReserve_def Let_def supports_free_update Contains_subtract
      Contains_assignedRanges)

lemma joinFreeWithReserve_V6_assigned:
  "supportsV6 s \<Longrightarrow> a \<in> snd ` set (V6PodToIP s) \<Longrightarrow>
     \<not> Contains (V6FreeIPList (joinFreeWithReserve s)) a"
  by (simp add: joinFreeWithReserve_def Let_def supports_free_update Contains_subtract
      Contains_assignedRanges)

subsection \<open>What a reconciling GetStaticAddress changes\<close>

lemma staticV4_force_cases:
  "snd (staticV4 env s p a mac True) = s
   \<or> snd (staticV4 env s p a mac True) = recordV4 (recordMac s p (chooseMac env s p mac)) p a
     \<and> (V4IPToPod s a = None \<or> V4IPToPod s a = Some p)"
  by (auto simp: staticV4_def Let_def split: option.splits)

lemma staticV6_force_cases:
  "snd (staticV6 env s p a mac True) = s
   \<or> snd (staticV6 env s p a mac True) = recordV6 (recordMac s p (chooseMac env s p mac)) p a
     \<and> (V6IPToPod s a = None \<or> V6IPToPod s a = Some p)"
  by (auto simp: staticV6_def Let_def split: option.splits)

lemma staticV4_force_keeps:
  "Protocol (snd (staticV4 env s p a mac True)) = Protocol s"
  "V4FreeIPList (snd (staticV4 env s p a mac True)) = V4FreeIPList s"
  "V6FreeIPList (snd (staticV4 env s p a mac True)) = V6FreeIPList s"
  "V6PodToIP (snd (staticV4 env s p a mac True)) = V6PodToIP s"
  "V6IPToPod (snd (staticV4 env s p a mac True)) = V6IPToPod s"
  using staticV4_force_cases [of env s p a mac]
  by (auto simp: recordV4_def recordMac_def)

lemma staticV6_force_keeps:
  "Protocol (snd (staticV6 env s p a mac True)) = Protocol s"
  "V4FreeIPList (snd (staticV6 env s p a mac True)) = V4FreeIPList s"
  "V6FreeIPList (snd (staticV6 env s p a mac True)) = V6FreeIPList s"
  "V4PodToIP (snd (staticV6 env s p a mac True)) = V4PodToIP s"
  "V4IPToPod (snd (staticV6 env s p a mac True)) = V4IPToPod s"
  using staticV6_force_cases [of env s p a mac]
  by (auto simp: recordV6_def recordMac_def)

lemma update_values: "snd ` set (AList.update p a al) \<subseteq> insert a (snd ` set al)"
  by (induction al) auto

lemma staticV4_force_values:
  "snd ` set (V4PodToIP (snd (staticV4 env s p a mac True))) \<subseteq> insert a (snd ` set (V4PodToIP s))"
proof -
  have "V4PodToIP (snd (staticV4 env s p a mac True)) = V4PodToIP s
        \<or> V4PodToIP (snd (staticV4 env s p a mac True)) = AList.update p a (V4PodToIP s)"
    using staticV4_force_cases [of env s p a mac]
    by (auto simp: recordV4_def recordMac_def)
  then show ?thesis
  proof
    assume "V4PodToIP (snd (staticV4 env s p a mac True)) = V4PodToIP s"
    then show ?thesis by auto
  next
    assume e: "V4PodToIP (snd (staticV4 env s p a mac True)) = AList.update p a (V4PodToIP s)"
    show ?thesis unfolding e by (rule update_values)
  qed
qed

lemma staticV6_force_values:
  "snd ` set (V6PodToIP (snd (staticV6 env s p a mac True))) \<subseteq> insert a (snd ` set (V6PodToIP s))"
proof -
  have "V6PodToIP (snd (staticV6 env s p a mac True)) = V6PodToIP s
        \<or> V6PodToIP (snd (staticV6 env s p a mac True)) = AList.update p a (V6PodToIP s)"
    using staticV6_force_cases [of env s p a mac]
    by (auto simp: recordV6_def recordMac_def)
  then show ?thesis
  proof
    assume "V6PodToIP (snd (staticV6 env s p a mac True)) = V6PodToIP s"
    then show ?thesis by auto
  next
    assume e: "V6PodToIP (snd (staticV6 env s p a mac True)) = AList.update p a (V6PodToIP s)"
    show ?thesis unfolding e by (rule update_values)
  qed
qed

lemma staticV4_force_same:
  "map_of (V4PodToIP s) p = Some a \<Longrightarrow> V4PodToIP (snd (staticV4 env s p a mac True)) = V4PodToIP s"
  using staticV4_force_cases [of env s p a mac]
  by (auto simp: recordV4_def recordMac_def update_triv)

lemma staticV6_force_same:
  "map_of (V6PodToIP s) p = Some a \<Longrightarrow> V6PodToIP (snd (staticV6 env s p a mac True)) = V6PodToIP s"
  using staticV6_force_cases [of env s p a mac]
  by (auto simp: recordV6_def recordMac_def update_triv)

lemma chooseMac_held: "PodToMac s p = Some m \<Longrightarrow> chooseMac env s p (heldMac s p) = m"
  by (simp add: chooseMac_def heldMac_def)

lemma recordMac_grows: "PodToMac s \<subseteq>\<^sub>m PodToMac (recordMac s p (chooseMac env s p (heldMac s p)))"
  by (auto simp: map_le_def recordMac_def chooseMac_held)

lemma staticV4_force_maps:
  "PodToMac s \<subseteq>\<^sub>m PodToMac (snd (staticV4 env s p a (heldMac s p) True))"
  "V4IPToPod s \<subseteq>\<^sub>m V4IPToPod (snd (staticV4 env s p a (heldMac s p) True))"
proof -
  let ?s' = "snd (staticV4 env s p a (heldMac s p) True)"
  let ?r = "recordV4 (recordMac s p (chooseMac env s p (heldMac s p))) p a"
  have c: "?s' = s \<or> ?s' = ?r \<and> (V4IPToPod s a = None \<or> V4IPToPod s a = Some p)"
    by (rule staticV4_force_cases)
  have m: "PodToMac ?r = PodToMac (recordMac s p (chooseMac env s p (heldMac s p)))"
    by (simp add: recordV4_def)
  have i: "V4IPToPod ?r = (V4IPToPod s)(a \<mapsto> p)"
    by (simp add: recordV4_def recordMac_def)
  from c show "PodToMac s \<subseteq>\<^sub>m PodToMac ?s'"
  proof
    assume "?s' = s" then show ?thesis by simp
  next
    assume "?s' = ?r \<and> (V4IPToPod s a = None \<or> V4IPToPod s a = Some p)"
    then show ?thesis using m recordMac_grows [of s p env] by simp
  qed
  from c show "V4IPToPod s \<subseteq>\<^sub>m V4IPToPod ?s'"
  proof
    assume "?s' = s" then show ?thesis by simp
  next
    assume r: "?s' = ?r \<and> (V4IPToPod s a = None \<or> V4IPToPod s a = Some p)"
    then have "V4IPToPod s \<subseteq>\<^sub>m (V4IPToPod s)(a \<mapsto> p)"
      by (auto simp: map_le_def)
    with r i show ?thesis by simp
  qed
qed

lemma staticV6_force_maps:
  "PodToMac s \<subseteq>\<^sub>m PodToMac (snd (staticV6 env s p a (heldMac s p) True))"
  "V6IPToPod s \<subseteq>\<^sub>m V6IPToPod (snd (staticV6 env s p a (heldMac s p) True))"
proof -
  let ?s' = "snd (staticV6 env s p a (heldMac s p) True)"
  let ?r = "recordV6 (recordMac s p (chooseMac env s p (heldMac s p))) p a"
  have c: "?s' = s \<or> ?s' = ?r \<and> (V6IPToPod s a = None \<or> V6IPToPod s a = Some p)"
    by (rule staticV6_force_cases)
  have m: "PodToMac ?r = PodToMac (recordMac s p (chooseMac env s p (heldMac s p)))"
    by (simp add: recordV6_def)
  have i: "V6IPToPod ?r = (V6IPToPod s)(a \<mapsto> p)"
    by (simp add: recordV6_def recordMac_def)
  from c show "PodToMac s \<subseteq>\<^sub>m PodToMac ?s'"
  proof
    assume "?s' = s" then show ?thesis by simp
  next
    assume "?s' = ?r \<and> (V6IPToPod s a = None \<or> V6IPToPod s a = Some p)"
    then show ?thesis using m recordMac_grows [of s p env] by simp
  qed
  from c show "V6IPToPod s \<subseteq>\<^sub>m V6IPToPod ?s'"
  proof
    assume "?s' = s" then show ?thesis by simp
  next
    assume r: "?s' = ?r \<and> (V6IPToPod s a = None \<or> V6IPToPod s a = Some p)"
    then have "V6IPToPod s \<subseteq>\<^sub>m (V6IPToPod s)(a \<mapsto> p)"
      by (auto simp: map_le_def)
    with r i show ?thesis by simp
  qed
qed

subsection \<open>The revalidation loops\<close>

lemma revalidateV4_keeps:
  "Protocol (revalidateV4 env es s) = Protocol s
   \<and> V4FreeIPList (revalidateV4 env es s) = V4FreeIPList s
   \<and> V6FreeIPList (revalidateV4 env es s) = V6FreeIPList s
   \<and> V6PodToIP (revalidateV4 env es s) = V6PodToIP s
   \<and> V6IPToPod (revalidateV4 env es s) = V6IPToPod s"
proof (induction es arbitrary: s)
  case Nil
  show ?case by simp
next
  case (Cons e es)
  obtain p a where e: "e = (p, a)" by (cases e)
  show ?case
    using Cons.IH [of "snd (staticV4 env s p a (heldMac s p) True)"]
    by (simp add: e staticV4_force_keeps)
qed

lemma revalidateV6_keeps:
  "Protocol (revalidateV6 env es s) = Protocol s
   \<and> V4FreeIPList (revalidateV6 env es s) = V4FreeIPList s
   \<and> V6FreeIPList (revalidateV6 env es s) = V6FreeIPList s
   \<and> V4PodToIP (revalidateV6 env es s) = V4PodToIP s
   \<and> V4IPToPod (revalidateV6 env es s) = V4IPToPod s"
proof (induction es arbitrary: s)
  case Nil
  show ?case by simp
next
  case (Cons e es)
  obtain p a where e: "e = (p, a)" by (cases e)
  show ?case
    using Cons.IH [of "snd (staticV6 env s p a (heldMac s p) True)"]
    by (simp add: e staticV6_force_keeps)
qed

lemma revalidateV4_values:
  "snd ` set es \<subseteq> A \<Longrightarrow> snd ` set (V4PodToIP s) \<subseteq> A \<Longrightarrow>
     snd ` set (V4PodToIP (revalidateV4 env es s)) \<subseteq> A"
proof (induction es arbitrary: s)
  case Nil
  then show ?case by simp
next
  case (Cons e es)
  obtain p a where e: "e = (p, a)" by (cases e)
  let ?s' = "snd (staticV4 env s p a (heldMac s p) True)"
  from Cons.prems e have "a \<in> A" by simp
  with Cons.prems(2) staticV4_force_values [of env s p a "heldMac s p"]
  have "snd ` set (V4PodToIP ?s') \<subseteq> A" by blast
  moreover from Cons.prems(1) have "snd ` set es \<subseteq> A" by simp
  ultimately have "snd ` set (V4PodToIP (revalidateV4 env es ?s')) \<subseteq> A"
    by (rule Cons.IH [rotated])
  then show ?case by (simp add: e)
qed

lemma revalidateV6_values:
  "snd ` set es \<subseteq> A \<Longrightarrow> snd ` set (V6PodToIP s) \<subseteq> A \<Longrightarrow>
     snd ` set (V6PodToIP (revalidateV6 env es s)) \<subseteq> A"
proof (induction es arbitrary: s)
  case Nil
  then show ?case by simp
next
  case (Cons e es)
  obtain p a where e: "e = (p, a)" by (cases e)
  let ?s' = "snd (staticV6 env s p a (heldMac s p) True)"
  from Cons.prems e have "a \<in> A" by simp
  with Cons.prems(2) staticV6_force_values [of env s p a "heldMac s p"]
  have "snd ` set (V6PodToIP ?s') \<subseteq> A" by blast
  moreover from Cons.prems(1) have "snd ` set es \<subseteq> A" by simp
  ultimately have "snd ` set (V6PodToIP (revalidateV6 env es ?s')) \<subseteq> A"
    by (rule Cons.IH [rotated])
  then show ?case by (simp add: e)
qed

lemma revalidateV4_same:
  "\<forall>(p, a) \<in> set es. map_of (V4PodToIP s) p = Some a \<Longrightarrow>
     V4PodToIP (revalidateV4 env es s) = V4PodToIP s"
proof (induction es arbitrary: s)
  case Nil
  then show ?case by simp
next
  case (Cons e es)
  obtain p a where e: "e = (p, a)" by (cases e)
  let ?s' = "snd (staticV4 env s p a (heldMac s p) True)"
  from Cons.prems e have same: "V4PodToIP ?s' = V4PodToIP s"
    by (simp add: staticV4_force_same)
  with Cons.prems have "\<forall>(p, a) \<in> set es. map_of (V4PodToIP ?s') p = Some a"
    by simp
  then have "V4PodToIP (revalidateV4 env es ?s') = V4PodToIP ?s'"
    by (rule Cons.IH)
  with same show ?case by (simp add: e)
qed

lemma revalidateV6_same:
  "\<forall>(p, a) \<in> set es. map_of (V6PodToIP s) p = Some a \<Longrightarrow>
     V6PodToIP (revalidateV6 env es s) = V6PodToIP s"
proof (induction es arbitrary: s)
  case Nil
  then show ?case by simp
next
  case (Cons e es)
  obtain p a where e: "e = (p, a)" by (cases e)
  let ?s' = "snd (staticV6 env s p a (heldMac s p) True)"
  from Cons.prems e have same: "V6PodToIP ?s' = V6PodToIP s"
    by (simp add: staticV6_force_same)
  with Cons.prems have "\<forall>(p, a) \<in> set es. map_of (V6PodToIP ?s') p = Some a"
    by simp
  then have "V6PodToIP (revalidateV6 env es ?s') = V6PodToIP ?s'"
    by (rule Cons.IH)
  with same show ?case by (simp add: e)
qed

lemma revalidateV4_maps:
  "PodToMac s \<subseteq>\<^sub>m PodToMac (revalidateV4 env es s)
   \<and> V4IPToPod s \<subseteq>\<^sub>m V4IPToPod (revalidateV4 env es s)"
proof (induction es arbitrary: s)
  case Nil
  show ?case by simp
next
  case (Cons e es)
  obtain p a where e: "e = (p, a)" by (cases e)
  let ?s' = "snd (staticV4 env s p a (heldMac s p) True)"
  have "PodToMac s \<subseteq>\<^sub>m PodToMac ?s'" "V4IPToPod s \<subseteq>\<^sub>m V4IPToPod ?s'"
    by (rule staticV4_force_maps)+
  with Cons.IH [of ?s'] show ?case
    by (auto simp: e intro: map_le_trans)
qed

lemma revalidateV6_maps:
  "PodToMac s \<subseteq>\<^sub>m PodToMac (revalidateV6 env es s)
   \<and> V6IPToPod s \<subseteq>\<^sub>m V6IPToPod (revalidateV6 env es s)"
proof (induction es arbitrary: s)
  case Nil
  show ?case by simp
next
  case (Cons e es)
  obtain p a where e: "e = (p, a)" by (cases e)
  let ?s' = "snd (staticV6 env s p a (heldMac s p) True)"
  have "PodToMac s \<subseteq>\<^sub>m PodToMac ?s'" "V6IPToPod s \<subseteq>\<^sub>m V6IPToPod ?s'"
    by (rule staticV6_force_maps)+
  with Cons.IH [of ?s'] show ?case
    by (auto simp: e intro: map_le_trans)
qed

lemma distinct_keys_lookup:
  "distinct (map fst al) \<Longrightarrow> \<forall>(p, a) \<in> set al. map_of al p = Some a"
  by auto

subsection \<open>The update path\<close>

lemma supports_Protocol:
  "Protocol s' = Protocol s \<Longrightarrow> supportsV4 s' = supportsV4 s"
  "Protocol s' = Protocol s \<Longrightarrow> supportsV6 s' = supportsV6 s"
  by (simp_all add: supportsV4_def supportsV6_def)

lemma updateV4_unfold:
  "updateV4 env c ex s =
     revalidateV4 env (V4PodToIP s)
       (joinFreeWithReserve
          (s\<lparr>V4ReservedIPList := convertExcludeIps env ex,
             V4FreeIPList := [\<lparr>Start = FirstSubnetIP env c, End = LastIP env c\<rparr>]\<rparr>))"
  by (simp add: updateV4_def Let_def joinFreeWithReserve_keeps)

lemma updateV6_unfold:
  "updateV6 env c ex s =
     revalidateV6 env (V6PodToIP s)
       (joinFreeWithReserve
          (s\<lparr>V6ReservedIPList := convertExcludeIps env ex,
             V6FreeIPList := [\<lparr>Start = FirstSubnetIP env c, End = LastIP env c\<rparr>]\<rparr>))"
  by (simp add: updateV6_def Let_def joinFreeWithReserve_keeps)

lemma updateV4_assigned:
  assumes "supportsV4 s" and "a \<in> snd ` set (V4PodToIP s)"
  shows "\<not> Contains (V4FreeIPList (updateV4 env c ex s)) a"
proof -
  let ?s2 = "s\<lparr>V4ReservedIPList := convertExcludeIps env ex,
               V4FreeIPList := [\<lparr>Start = FirstSubnetIP env c, End = LastIP env c\<rparr>]\<rparr>"
  have "supportsV4 ?s2" using assms(1) by (simp add: supportsV4_def)
  moreover have "a \<in> snd ` set (V4PodToIP ?s2)" using assms(2) by simp
  ultimately have "\<not> Contains (V4FreeIPList (joinFreeWithReserve ?s2)) a"
    by (rule joinFreeWithReserve_V4_assigned)
  then show ?thesis
    by (simp add: updateV4_unfold revalidateV4_keeps)
qed

lemma updateV6_assigned:
  assumes "supportsV6 s" and "a \<in> snd ` set (V6PodToIP s)"
  shows "\<not> Contains (V6FreeIPList (updateV6 env c ex s)) a"
proof -
  let ?s2 = "s\<lparr>V6ReservedIPList := convertExcludeIps env ex,
               V6FreeIPList := [\<lparr>Start = FirstSubnetIP env c, End = LastIP env c\<rparr>]\<rparr>"
  have "supportsV6 ?s2" using assms(1) by (simp add: supportsV6_def)
  moreover have "a \<in> snd ` set (V6PodToIP ?s2)" using assms(2) by simp
  ultimately have "\<not> Contains (V6FreeIPList (joinFreeWithReserve ?s2)) a"
    by (rule joinFreeWithReserve_V6_assigned)
  then show ?thesis
    by (simp add: updateV6_unfold revalidateV6_keeps)
qed

lemma updateV4_keeps:
  "Protocol (updateV4 env c ex s) = Protocol s"
  "V6PodToIP (updateV4 env c ex s) = V6PodToIP s"
  "V6IPToPod (updateV4 env c ex s) = V6IPToPod s"
  by (simp_all add: updateV4_unfold revalidateV4_keeps joinFreeWithReserve_keeps)

lemma updateV6_keeps:
  "Protocol (updateV6 env c ex s) = Protocol s"
  "V4PodToIP (updateV6 env c ex s) = V4PodToIP s"
  "V4IPToPod (updateV6 env c ex s) = V4IPToPod s"
  by (simp_all add: updateV6_unfold revalidateV6_keeps joinFreeWithReserve_keeps)

lemma updateV6_V4_shrinks:
  "Contains (V4FreeIPList (updateV6 env c ex s)) a \<Longrightarrow> Contains (V4FreeIPList s) a"
  using joinFreeWithReserve_shrinks(1)
  by (fastforce simp: updateV6_unfold revalidateV6_keeps)

lemma updateV4_values:
  "snd ` set (V4PodToIP (updateV4 env c ex s)) \<subseteq> snd ` set (V4PodToIP s)"
  unfolding updateV4_unfold
  by (rule revalidateV4_values) (simp_all add: joinFreeWithReserve_keeps)

lemma updateV6_values:
  "snd ` set (V6PodToIP (updateV6 env c ex s)) \<subseteq> snd ` set (V6PodToIP s)"
  unfolding updateV6_unfold
  by (rule revalidateV6_values) (simp_all add: joinFreeWithReserve_keeps)

lemma updateV4_same:
  "distinct (map fst (V4PodToIP s)) \<Longrightarrow> V4PodToIP (updateV4 env c ex s) = V4PodToIP s"
  using distinct_keys_lookup [of "V4PodToIP s"]
  by (simp add: updateV4_unfold revalidateV4_same joinFreeWithReserve_keeps)

lemma updateV6_same:
  "distinct (map fst (V6PodToIP s)) \<Longrightarrow> V6PodToIP (updateV6 env c ex s) = V6PodToIP s"
  using distinct_keys_lookup [of "V6PodToIP s"]
  by (simp add: updateV6_unfold revalidateV6_same joinFreeWithReserve_keeps)

lemma updateV4_maps:
  "PodToMac s \<subseteq>\<^sub>m PodToMac (updateV4 env c ex s)"
  "V4IPToPod s \<subseteq>\<^sub>m V4IPToPod (updateV4 env c ex s)"
  using revalidateV4_maps [of "joinFreeWithReserve
          (s\<lparr>V4ReservedIPList := convertExcludeIps env ex,
             V4FreeIPList := [\<lparr>Start = FirstSubnetIP env c, End = LastIP env c\<rparr>]\<rparr>)"
          env "V4PodToIP s"]
  by (simp_all add: updateV4_unfold joinFreeWithReserve_keeps)

lemma updateV6_maps:
  "PodToMac s \<subseteq>\<^sub>m PodToMac (updateV6 env c ex s)"
  "V6IPToPod s \<subseteq>\<^sub>m V6IPToPod (updateV6 env c ex s)"
  using revalidateV6_maps [of "joinFreeWithReserve
          (s\<lparr>V6ReservedIPList := convertExcludeIps env ex,
             V6FreeIPList := [\<lparr>Start = FirstSubnetIP env c, End = LastIP env c\<rparr>]\<rparr>)"
          env "V6PodToIP s"]
  by (simp_all add: updateV6_unfold joinFreeWithReserve_keeps)

lemma updateSubnet_Protocol:
  "Protocol (updateSubnet env protocol c4 c6 ex4 ex6 s) = protocol"
  by (simp add: updateSubnet_def Let_def updateV4_keeps updateV6_keeps)

lemma updateSubnet_V4_disjoint:
  assumes "protocol = ProtocolDual \<or> protocol = ProtocolIPv4"
    and "a \<in> snd ` set (V4PodToIP s)"
  shows "\<not> Contains (V4FreeIPList (updateSubnet env protocol c4 c6 ex4 ex6 s)) a"
proof -
  let ?s1 = "s\<lparr>Protocol := protocol\<rparr>"
  have "\<not> Contains (V4FreeIPList (updateV4 env c4 ex4 ?s1)) a"
    using assms by (intro updateV4_assigned) (simp_all add: supportsV4_def)
  then show ?thesis
    using assms(1) updateV6_V4_shrinks [of env c6 ex6 "updateV4 env c4 ex4 ?s1" a]
    by (auto simp: updateSubnet_def Let_def)
qed

lemma updateSubnet_V6_disjoint:
  assumes "protocol = ProtocolDual \<or> protocol = ProtocolIPv6"
    and "a \<in> snd ` set (V6PodToIP s)"
  shows "\<not> Contains (V6FreeIPList (updateSubnet env protocol c4 c6 ex4 ex6 s)) a"
proof -
  let ?s1 = "s\<lparr>Protocol := protocol\<rparr>"
  let ?s2 = "if protocol = ProtocolDual \<or> protocol = ProtocolIPv4
             then updateV4 env c4 ex4 ?s1 else ?s1"
  have p: "Protocol ?s2 = protocol" and v: "V6PodToIP ?s2 = V6PodToIP s"
    by (simp_all add: updateV4_keeps)
  have "\<not> Contains (V6FreeIPList (updateV6 env c6 ex6 ?s2)) a"
  proof (rule updateV6_assigned)
    show "supportsV6 ?s2" using assms(1) p by (simp add: supportsV6_def)
    show "a \<in> snd ` set (V6PodToIP ?s2)" using assms(2) v by simp
  qed
  then show ?thesis
    using assms(1) by (simp add: updateSubnet_def Let_def)
qed

lemma updateSubnet_values:
  "snd ` set (V4PodToIP (updateSubnet env protocol c4 c6 ex4 ex6 s)) \<subseteq> snd ` set (V4PodToIP s)"
  "snd ` set (V6PodToIP (updateSubnet env protocol c4 c6 ex4 ex6 s)) \<subseteq> snd ` set (V6PodToIP s)"
proof -
  define b4 where "b4 \<longleftrightarrow> protocol = ProtocolDual \<or> protocol = ProtocolIPv4"
  define b6 where "b6 \<longleftrightarrow> protocol = ProtocolDual \<or> protocol = ProtocolIPv6"
  let ?s1 = "s\<lparr>Protocol := protocol\<rparr>"
  let ?s2 = "if b4 then updateV4 env c4 ex4 ?s1 else ?s1"
  let ?s3 = "if b6 then updateV6 env c6 ex6 ?s2 else ?s2"
  have r: "updateSubnet env protocol c4 c6 ex4 ex6 s = ?s3"
    by (simp add: updateSubnet_def Let_def b4_def b6_def)
  have v4: "snd ` set (V4PodToIP ?s2) \<subseteq> snd ` set (V4PodToIP s)"
    using updateV4_values [of env c4 ex4 ?s1] by (cases b4) simp_all
  have k4: "V4PodToIP ?s3 = V4PodToIP ?s2"
    by (cases b6) (simp_all add: updateV6_keeps)
  show "snd ` set (V4PodToIP (updateSubnet env protocol c4 c6 ex4 ex6 s)) \<subseteq> snd ` set (V4PodToIP s)"
    unfolding r k4 by (rule v4)
  have k6: "V6PodToIP ?s2 = V6PodToIP s"
    by (cases b4) (simp_all add: updateV4_keeps)
  have v6: "snd ` set (V6PodToIP ?s3) \<subseteq> snd ` set (V6PodToIP ?s2)"
    using updateV6_values [of env c6 ex6 ?s2] by (cases b6) simp_all
  show "snd ` set (V6PodToIP (updateSubnet env protocol c4 c6 ex4 ex6 s)) \<subseteq> snd ` set (V6PodToIP s)"
    unfolding r using v6 k6 by simp
qed

lemma updateSubnet_same:
  assumes "distinct (map fst (V4PodToIP s))" and "distinct (map fst (V6PodToIP s))"
  shows "V4PodToIP (updateSubnet env protocol c4 c6 ex4 ex6 s) = V4PodToIP s"
    and "V6PodToIP (updateSubnet env protocol c4 c6 ex4 ex6 s) = V6PodToIP s"
  using assms
  by (simp_all add: updateSubnet_def Let_def updateV4_keeps updateV6_keeps updateV4_same
      updateV6_same)

lemma updateSubnet_maps:
  "PodToMac s \<subseteq>\<^sub>m PodToMac (updateSubnet env protocol c4 c6 ex4 ex6 s)"
  "V4IPToPod s \<subseteq>\<^sub>m V4IPToPod (updateSubnet env protocol c4 c6 ex4 ex6 s)"
  "V6IPToPod s \<subseteq>\<^sub>m V6IPToPod (updateSubnet env protocol c4 c6 ex4 ex6 s)"
proof -
  let ?s1 = "s\<lparr>Protocol := protocol\<rparr>"
  let ?s2 = "if protocol = ProtocolDual \<or> protocol = ProtocolIPv4
             then updateV4 env c4 ex4 ?s1 else ?s1"
  let ?s3 = "if protocol = ProtocolDual \<or> protocol = ProtocolIPv6
             then updateV6 env c6 ex6 ?s2 else ?s2"
  have r: "updateSubnet env protocol c4 c6 ex4 ex6 s = ?s3"
    by (simp add: updateSubnet_def Let_def)
  have m2: "PodToMac s \<subseteq>\<^sub>m PodToMac ?s2" "V4IPToPod s \<subseteq>\<^sub>m V4IPToPod ?s2"
    using updateV4_maps [of ?s1 env c4 ex4] by simp_all
  have k2: "V6IPToPod ?s2 = V6IPToPod s"
    by (simp add: updateV4_keeps)
  have m3: "PodToMac ?s2 \<subseteq>\<^sub>m PodToMac ?s3" "V6IPToPod ?s2 \<subseteq>\<^sub>m V6IPToPod ?s3"
    using updateV6_maps [of ?s2 env c6 ex6] by simp_all
  have k3: "V4IPToPod ?s3 = V4IPToPod ?s2"
    by (simp add: updateV6_keeps)
  show "PodToMac s \<subseteq>\<^sub>m PodToMac (updateSubnet env protocol c4 c6 ex4 ex6 s)"
    unfolding r using m2(1) m3(1) by (rule map_le_trans)
  show "V4IPToPod s \<subseteq>\<^sub>m V4IPToPod (updateSubnet env protocol c4 c6 ex4 ex6 s)"
    unfolding r k3 by (rule m2(2))
  show "V6IPToPod s \<subseteq>\<^sub>m V6IPToPod (updateSubnet env protocol c4 c6 ex4 ex6 s)"
    unfolding r using m3(2) k2 by simp
qed

lemma AddOrUpdateSubnet_update:
  assumes "map_of (Subnets ipam) name = Some subnet"
    and "snd (snd (checkCIDR env cidrStr)) = None"
  shows "AddOrUpdateSubnet env ipam name cidrStr excludeIps =
           (None,
            ipam\<lparr>Subnets :=
              AList.update name
                (updateSubnet env (CheckProtocol env cidrStr) (fst (checkCIDR env cidrStr))
                   (fst (snd (checkCIDR env cidrStr))) (fst (splitIpsByProtocol env excludeIps))
                   (snd (splitIpsByProtocol env excludeIps)) subnet)
                (Subnets ipam)\<rparr>)"
  using assms
  by (cases "checkCIDR env cidrStr"; cases "splitIpsByProtocol env excludeIps")
     (simp add: AddOrUpdateSubnet_def Let_def)

lemma AddOrUpdateSubnet_updated_entry:
  assumes "map_of (Subnets ipam) name = Some subnet"
    and "snd (snd (checkCIDR env cidrStr)) = None"
  shows "fst (AddOrUpdateSubnet env ipam name cidrStr excludeIps) = None"
    and "map_of (Subnets (snd (AddOrUpdateSubnet env ipam name cidrStr excludeIps))) name =
           Some (updateSubnet env (CheckProtocol env cidrStr) (fst (checkCIDR env cidrStr))
                   (fst (snd (checkCIDR env cidrStr))) (fst (splitIpsByProtocol env excludeIps))
                   (snd (splitIpsByProtocol env excludeIps)) subnet)"
  by (simp_all add: AddOrUpdateSubnet_update [OF assms] update_conv')

subsection \<open>The example reconfiguration\<close>

lemma example_checkCIDR: "checkCIDR exampleEnv ''10.0.0.0/25'' = (''10.0.0.0/25'', ''10.0.0.0/25'', None)"
  by (simp add: checkCIDR_def exampleEnv_def exampleCheckProtocol_def exampleParseCIDR_def
      ProtocolDual_def)

lemma example_updated_free:
  "V4FreeIPList (joinFreeWithReserve
      (exampleV4Subnet\<lparr>V4ReservedIPList := [],
         V4FreeIPList := [\<lparr>Start = 167772161, End = 167772286\<rparr>]\<rparr>)) =
     [\<lparr>Start = 167772161, End = 167772259\<rparr>, \<lparr>Start = 167772261, End = 167772286\<rparr>]"
  by (simp add: joinFreeWithReserve_def supportsV4_def supportsV6_def exampleV4Subnet_def
      ProtocolDual_def ProtocolIPv4_def ProtocolIPv6_def subtract_def subtractRange_def
      assignedRanges_def)

lemma map_le_Some: "m \<subseteq>\<^sub>m m' \<Longrightarrow> m k = Some v \<Longrightarrow> m' k = Some v"
  by (metis domI map_le_def)

lemma example_x: "map_of (Subnets exampleIPAM) ''x'' = Some exampleV4Subnet"
  by (simp add: exampleIPAM_def)

lemma example_checked: "snd (snd (checkCIDR exampleEnv ''10.0.0.0/25'')) = None"
  by (simp add: example_checkCIDR)

lemma example_protocol: "CheckProtocol exampleEnv ''10.0.0.0/25'' = ''IPv4''"
  by (simp add: exampleEnv_def exampleCheckProtocol_def)

lemma example_assigned: "V4PodToIP exampleV4Subnet = [(''a'', 167772260), (''b'', 167772423)]"
  by (simp add: exampleV4Subnet_def)

lemma example_entry:
  "map_of (Subnets (snd (AddOrUpdateSubnet exampleEnv exampleIPAM ''x'' ''10.0.0.0/25'' []))) ''x'' =
     Some exampleUpdated"
proof -
  have "splitIpsByProtocol exampleEnv [] = ([], [])"
    by (simp add: exampleEnv_def exampleSplitIps_def)
  then show ?thesis
    using AddOrUpdateSubnet_updated_entry(2) [OF example_x example_checked, of "[]"]
    by (simp add: exampleUpdated_def example_protocol example_checkCIDR)
qed

lemma example_free:
  "V4FreeIPList exampleUpdated =
     [\<lparr>Start = 167772161, End = 167772259\<rparr>, \<lparr>Start = 167772261, End = 167772286\<rparr>]"
proof -
  have "convertExcludeIps exampleEnv [] = []"
    "FirstSubnetIP exampleEnv ''10.0.0.0/25'' = 167772161"
    "LastIP exampleEnv ''10.0.0.0/25'' = 167772286"
    by (simp_all add: exampleEnv_def exampleFirstSubnetIP_def exampleLastIP_def)
  moreover have "exampleV4Subnet\<lparr>Protocol := ''IPv4''\<rparr> = exampleV4Subnet"
    by (simp add: exampleV4Subnet_def)
  ultimately show ?thesis
    using example_updated_free
    by (simp add: exampleUpdated_def updateSubnet_def ProtocolDual_def ProtocolIPv4_def
        ProtocolIPv6_def updateV4_unfold revalidateV4_keeps)
qed

lemma example_b_fails:
  "snd (snd (fst (Subnet_GetStaticAddress exampleEnv exampleV4Subnet ''b'' (V4 167772423)
      (heldMac exampleV4Subnet ''b'') True))) = Some OutOfRangeError"
  by (simp add: staticV4_def exampleV4Subnet_def inRange_def)

subsection \<open>Free space and assignments after a reconfiguration\<close>

text \<open>
  Claim C1: when \<open>AddOrUpdateSubnet\<close> is applied to a subnet that is already in the
  registry and the CIDR check passes, the call succeeds and, for each family of the new
  protocol, the rebuilt free list of the subnet contains none of the addresses the
  pod-to-IP bookkeeping records: neither an address assigned to some owner before the
  call nor one recorded after it.
\<close>

theorem AddOrUpdateSubnet_free_disjoint:
  assumes "map_of (Subnets ipam) name = Some subnet"
    and "snd (snd (checkCIDR env cidrStr)) = None"
  shows "fst (AddOrUpdateSubnet env ipam name cidrStr excludeIps) = None
         \<and> (\<exists>subnet'.
               map_of (Subnets (snd (AddOrUpdateSubnet env ipam name cidrStr excludeIps))) name =
                 Some subnet'
               \<and> Protocol subnet' = CheckProtocol env cidrStr
               \<and> (supportsV4 subnet' \<longrightarrow>
                    (\<forall>a \<in> snd ` set (V4PodToIP subnet) \<union> snd ` set (V4PodToIP subnet').
                       \<not> Contains (V4FreeIPList subnet') a))
               \<and> (supportsV6 subnet' \<longrightarrow>
                    (\<forall>a \<in> snd ` set (V6PodToIP subnet) \<union> snd ` set (V6PodToIP subnet').
                       \<not> Contains (V6FreeIPList subnet') a)))"
proof -
  let ?protocol = "CheckProtocol env cidrStr"
  let ?s' = "updateSubnet env ?protocol (fst (checkCIDR env cidrStr))
               (fst (snd (checkCIDR env cidrStr))) (fst (splitIpsByProtocol env excludeIps))
               (snd (splitIpsByProtocol env excludeIps)) subnet"
  have r: "fst (AddOrUpdateSubnet env ipam name cidrStr excludeIps) = None"
    and e: "map_of (Subnets (snd (AddOrUpdateSubnet env ipam name cidrStr excludeIps))) name =
              Some ?s'"
    using assms by (rule AddOrUpdateSubnet_updated_entry)+
  have p: "Protocol ?s' = ?protocol"
    by (rule updateSubnet_Protocol)
  have v4: "\<not> Contains (V4FreeIPList ?s') a"
    if "supportsV4 ?s'" and "a \<in> snd ` set (V4PodToIP subnet) \<union> snd ` set (V4PodToIP ?s')" for a
  proof -
    from that(1) p have "?protocol = ProtocolDual \<or> ?protocol = ProtocolIPv4"
      by (simp add: supportsV4_def)
    moreover from that(2) updateSubnet_values(1) have "a \<in> snd ` set (V4PodToIP subnet)"
      by blast
    ultimately show ?thesis by (rule updateSubnet_V4_disjoint)
  qed
  have v6: "\<not> Contains (V6FreeIPList ?s') a"
    if "supportsV6 ?s'" and "a \<in> snd ` set (V6PodToIP subnet) \<union> snd ` set (V6PodToIP ?s')" for a
  proof -
    from that(1) p have "?protocol = ProtocolDual \<or> ?protocol = ProtocolIPv6"
      by (simp add: supportsV6_def)
    moreover from that(2) updateSubnet_values(2) have "a \<in> snd ` set (V6PodToIP subnet)"
      by blast
    ultimately show ?thesis by (rule updateSubnet_V6_disjoint)
  qed
  from r e p v4 v6 show ?thesis by blast
qed

theorem AddOrUpdateSubnet_free_disjoint_witness:
  "map_of (Subnets exampleIPAM) ''x'' = Some exampleV4Subnet
   \<and> snd (snd (checkCIDR exampleEnv ''10.0.0.0/25'')) = None
   \<and> V4PodToIP exampleV4Subnet = [(''a'', 167772260), (''b'', 167772423)]
   \<and> fst (AddOrUpdateSubnet exampleEnv exampleIPAM ''x'' ''10.0.0.0/25'' []) = None
   \<and> map_of (Subnets (snd (AddOrUpdateSubnet exampleEnv exampleIPAM ''x'' ''10.0.0.0/25'' [])))
         ''x'' = Some exampleUpdated
   \<and> V4FreeIPList exampleUpdated =
         [\<lparr>Start = 167772161, End = 167772259\<rparr>, \<lparr>Start = 167772261, End = 167772286\<rparr>]
   \<and> supportsV4 exampleUpdated
   \<and> \<not> Contains (V4FreeIPList exampleUpdated) 167772260
   \<and> \<not> Contains (V4FreeIPList exampleUpdated) 167772423"
proof -
  obtain subnet' where
    r: "fst (AddOrUpdateSubnet exampleEnv exampleIPAM ''x'' ''10.0.0.0/25'' []) = None"
    and e: "map_of (Subnets (snd (AddOrUpdateSubnet exampleEnv exampleIPAM ''x'' ''10.0.0.0/25'' [])))
              ''x'' = Some subnet'"
    and p: "Protocol subnet' = CheckProtocol exampleEnv ''10.0.0.0/25''"
    and d: "supportsV4 subnet' \<longrightarrow>
              (\<forall>a \<in> snd ` set (V4PodToIP exampleV4Subnet) \<union> snd ` set (V4PodToIP subnet').
                 \<not> Contains (V4FreeIPList subnet') a)"
    using AddOrUpdateSubnet_free_disjoint [OF example_x example_checked, of "[]"] by blast
  from e have u: "subnet' = exampleUpdated"
    by (simp add: example_entry)
  from p have s: "supportsV4 subnet'"
    by (simp add: supportsV4_def example_protocol ProtocolIPv4_def)
  with d have n: "\<not> Contains (V4FreeIPList subnet') 167772260"
    "\<not> Contains (V4FreeIPList subnet') 167772423"
    by (simp_all add: example_assigned)
  from example_x example_checked example_assigned r example_entry example_free
    s [unfolded u] n [unfolded u]
  show ?thesis
    by (intro conjI)
qed

text \<open>
  Claim C4: when \<open>AddOrUpdateSubnet\<close> reconfigures a subnet that is already in the
  registry and the CIDR check passes, it returns nil whatever the revalidation of the
  existing assignments reports, and no assignment is released: the pod-to-IP
  bookkeeping of both families is as before the call, and every entry of the
  IP-to-pod and pod-to-MAC maps is still there. (The owners of a pod-to-IP map are the
  keys of a Go map, hence distinct.)
\<close>

theorem AddOrUpdateSubnet_update_tolerant:
  assumes "map_of (Subnets ipam) name = Some subnet"
    and "snd (snd (checkCIDR env cidrStr)) = None"
    and "distinct (map fst (V4PodToIP subnet))"
    and "distinct (map fst (V6PodToIP subnet))"
  shows "fst (AddOrUpdateSubnet env ipam name cidrStr excludeIps) = None
         \<and> (\<exists>subnet'.
               map_of (Subnets (snd (AddOrUpdateSubnet env ipam name cidrStr excludeIps))) name =
                 Some subnet'
               \<and> V4PodToIP subnet' = V4PodToIP subnet
               \<and> V6PodToIP subnet' = V6PodToIP subnet
               \<and> V4IPToPod subnet \<subseteq>\<^sub>m V4IPToPod subnet'
               \<and> V6IPToPod subnet \<subseteq>\<^sub>m V6IPToPod subnet'
               \<and> PodToMac subnet \<subseteq>\<^sub>m PodToMac subnet')"
proof -
  let ?s' = "updateSubnet env (CheckProtocol env cidrStr) (fst (checkCIDR env cidrStr))
               (fst (snd (checkCIDR env cidrStr))) (fst (splitIpsByProtocol env excludeIps))
               (snd (splitIpsByProtocol env excludeIps)) subnet"
  have "fst (AddOrUpdateSubnet env ipam name cidrStr excludeIps) = None"
    and "map_of (Subnets (snd (AddOrUpdateSubnet env ipam name cidrStr excludeIps))) name =
              Some ?s'"
    using assms(1,2) by (rule AddOrUpdateSubnet_updated_entry)+
  moreover have "V4PodToIP ?s' = V4PodToIP subnet" "V6PodToIP ?s' = V6PodToIP subnet"
    using assms(3,4) by (rule updateSubnet_same)+
  moreover have "V4IPToPod subnet \<subseteq>\<^sub>m V4IPToPod ?s'" "V6IPToPod subnet \<subseteq>\<^sub>m V6IPToPod ?s'"
    "PodToMac subnet \<subseteq>\<^sub>m PodToMac ?s'"
    by (rule updateSubnet_maps)+
  ultimately show ?thesis by blast
qed

theorem AddOrUpdateSubnet_update_tolerant_witness:
  "map_of (Subnets exampleIPAM) ''x'' = Some exampleV4Subnet
   \<and> snd (snd (checkCIDR exampleEnv ''10.0.0.0/25'')) = None
   \<and> V4PodToIP exampleV4Subnet = [(''a'', 167772260), (''b'', 167772423)]
   \<and> V6PodToIP exampleV4Subnet = []
   \<and> snd (snd (fst (Subnet_GetStaticAddress exampleEnv exampleV4Subnet ''b'' (V4 167772423)
        (heldMac exampleV4Subnet ''b'') True))) = Some OutOfRangeError
   \<and> fst (AddOrUpdateSubnet exampleEnv exampleIPAM ''x'' ''10.0.0.0/25'' []) = None
   \<and> map_of (Subnets (snd (AddOrUpdateSubnet exampleEnv exampleIPAM ''x'' ''10.0.0.0/25'' [])))
         ''x'' = Some exampleUpdated
   \<and> V4PodToIP exampleUpdated = [(''a'', 167772260), (''b'', 167772423)]
   \<and> V4IPToPod exampleUpdated 167772423 = Some ''b''
   \<and> PodToMac exampleUpdated ''b'' = Some ''00:00:00:9a:01:07''"
proof -
  have d4: "distinct (map fst (V4PodToIP exampleV4Subnet))"
    by (simp add: example_assigned)
  have v6: "V6PodToIP exampleV4Subnet = []"
    by (simp add: exampleV4Subnet_def)
  then have d6: "distinct (map fst (V6PodToIP exampleV4Subnet))"
    by simp
  obtain subnet' where
    r: "fst (AddOrUpdateSubnet exampleEnv exampleIPAM ''x'' ''10.0.0.0/25'' []) = None"
    and e: "map_of (Subnets (snd (AddOrUpdateSubnet exampleEnv exampleIPAM ''x'' ''10.0.0.0/25'' [])))
              ''x'' = Some subnet'"
    and k: "V4PodToIP subnet' = V4PodToIP exampleV4Subnet"
    and i: "V4IPToPod exampleV4Subnet \<subseteq>\<^sub>m V4IPToPod subnet'"
    and m: "PodToMac exampleV4Subnet \<subseteq>\<^sub>m PodToMac subnet'"
    using AddOrUpdateSubnet_update_tolerant [OF example_x example_checked d4 d6, of "[]"]
    by blast
  from e have u: "subnet' = exampleUpdated"
    by (simp add: example_entry)
  have "V4IPToPod exampleV4Subnet 167772423 = Some ''b''"
    by (simp add: exampleV4Subnet_def)
  with i have i': "V4IPToPod subnet' 167772423 = Some ''b''"
    by (rule map_le_Some)
  have "PodToMac exampleV4Subnet ''b'' = Some ''00:00:00:9a:01:07''"
    by (simp add: exampleV4Subnet_def)
  with m have m': "PodToMac subnet' ''b'' = Some ''00:00:00:9a:01:07''"
    by (rule map_le_Some)
  from k have k': "V4PodToIP subnet' = [(''a'', 167772260), (''b'', 167772423)]"
    by (simp only: example_assigned)
  from example_x example_checked example_assigned v6 example_b_fails r example_entry
    k' [unfolded u] i' [unfolded u] m' [unfolded u]
  show ?thesis
    by (intro conjI)
qed

section \<open>Static allocation of a dual-stack pair\<close>

text \<open>
  In the dual-stack branch of \<open>GetStaticAddress\<close> the error returned is the error of
  the second call, whatever the first call reported.
\<close>

lemma GetStaticAddress_dual_error:
  assumes "map_of (Subnets ipam) subnetName = Some subnet"
    and "CheckProtocol env ip = ProtocolDual"
    and "Split ip CHR '','' = ip0 # ip1 # rest"
    and "Subnet_GetStaticAddress env subnet podName (toIP env ip0) mac False =
           ((v4IP, mac1, err1), subnet1)"
    and "Subnet_GetStaticAddress env subnet1 podName (toIP env ip1) mac1 False =
           ((v6IP, mac2, err2), subnet2)"
  shows "map_option (\<lambda>r. errorOf (fst r)) (GetStaticAddress env ipam podName ip mac subnetName)
           = Some err2"
  using assms by (simp add: GetStaticAddress_def errorOf_def)

lemma example_dual: "map_of (Subnets exampleIPAM) ''dual'' = Some exampleDualSubnet"
  by (simp add: exampleIPAM_def)

lemma example_split: "Split ''10.1.0.5,fd00::5'' CHR '','' = [''10.1.0.5'', ''fd00::5'']"
  by simp

lemma example_v4_rejected:
  "Subnet_GetStaticAddress exampleEnv exampleDualSubnet ''p'' (V4 167837701) '''' False =
     ((V4 167837701, '''', Some OutOfRangeError), exampleDualSubnet)"
  by (simp add: staticV4_def exampleDualSubnet_def inRange_def)

lemma example_v6_accepted:
  "fst (Subnet_GetStaticAddress exampleEnv exampleDualSubnet ''p''
          (V6 336294682933583715844663186250927177733) '''' False) =
     (V6 336294682933583715844663186250927177733, ''00:00:00:11:22:33'', None)"
  by (simp add: staticV6_def exampleDualSubnet_def inRange_def splitAround_def chooseMac_def
      exampleEnv_def exampleRandomMac_def Let_def)

text \<open>
  Claim C2 says that when the allocation of the v4 address of a dual-stack pair fails,
  that error is returned to the caller. The registry does otherwise: in the example
  registry the subnet \<open>dual\<close> has the v4 CIDR \<open>10.0.0.0/24\<close>, so the v4 address
  \<open>10.1.0.5\<close> is rejected with \<open>OutOfRangeError\<close>; the v6 address \<open>fd00::5\<close> is
  accepted, and \<open>GetStaticAddress\<close> for the pair returns both addresses, a MAC and
  no error.
\<close>

theorem GetStaticAddress_dual_drops_v4_error:
  "fst (Subnet_GetStaticAddress exampleEnv exampleDualSubnet ''p'' (toIP exampleEnv ''10.1.0.5'')
          '''' False) = (V4 167837701, '''', Some OutOfRangeError)
   \<and> map_option fst
         (GetStaticAddress exampleEnv exampleIPAM ''p'' ''10.1.0.5,fd00::5'' '''' ''dual'') =
       Some (''10.1.0.5'', ''fd00::5'', ''00:00:00:11:22:33'', None)"
proof -
  have t: "toIP exampleEnv ''10.1.0.5'' = V4 167837701"
    "toIP exampleEnv ''fd00::5'' = V6 336294682933583715844663186250927177733"
    by (simp_all add: exampleEnv_def exampleToIP_def)
  have o: "ofIP exampleEnv (V4 167837701) = ''10.1.0.5''"
    "ofIP exampleEnv (V6 336294682933583715844663186250927177733) = ''fd00::5''"
    by (simp_all add: exampleEnv_def)
  have c: "CheckProtocol exampleEnv ''10.1.0.5,fd00::5'' = ProtocolDual"
    by (simp add: exampleEnv_def exampleCheckProtocol_def ProtocolDual_def)
  obtain subnet2 where v6: "Subnet_GetStaticAddress exampleEnv exampleDualSubnet ''p''
          (V6 336294682933583715844663186250927177733) '''' False =
     ((V6 336294682933583715844663186250927177733, ''00:00:00:11:22:33'', None), subnet2)"
    using example_v6_accepted
    by (cases "Subnet_GetStaticAddress exampleEnv exampleDualSubnet ''p''
          (V6 336294682933583715844663186250927177733) '''' False") simp
  have "map_option fst
         (GetStaticAddress exampleEnv exampleIPAM ''p'' ''10.1.0.5,fd00::5'' '''' ''dual'') =
       Some (''10.1.0.5'', ''fd00::5'', ''00:00:00:11:22:33'', None)"
    unfolding GetStaticAddress_def
    by (simp only: example_dual example_split c t example_v4_rejected v6 o
        option.case list.case prod.case Let_def simp_thms if_True option.map fst_conv)
  with t(1) example_v4_rejected show ?thesis
    by (simp only: fst_conv simp_thms)
qed

section \<open>The addresses of an owner\<close>

lemma collectAddresses_concat:
  "collectAddresses env podName subnets addresses =
     addresses @ concat (map (\<lambda>(name, subnet). podEntries env subnet podName) subnets)"
  by (induction subnets arbitrary: addresses) auto

lemma concat_length_bounds:
  "\<forall>x \<in> set xs. 1 \<le> length (f x) \<and> length (f x) \<le> 2 \<Longrightarrow>
     length xs \<le> length (concat (map f xs)) \<and> length (concat (map f xs)) \<le> 2 * length xs"
  by (induction xs) auto

lemma GetPodAddress_concat:
  "GetPodAddress env ipam podName =
     concat (map (\<lambda>(name, subnet). podEntries env subnet podName) (Subnets ipam))"
  by (simp add: GetPodAddress_def collectAddresses_concat)

text \<open>
  Every subnet of the registry contributes one or two entries, whatever
  \<open>Subnet.GetPodAddress\<close> returns for the owner.
\<close>

lemma GetPodAddress_length:
  "length (Subnets ipam) \<le> length (GetPodAddress env ipam podName)
   \<and> length (GetPodAddress env ipam podName) \<le> 2 * length (Subnets ipam)"
  unfolding GetPodAddress_concat
  by (rule concat_length_bounds) (simp add: podEntries_def split: prod.splits)

text \<open>
  Claim C5, as stated, fails: a subnet in which the owner holds no address does
  contribute entries. In the example registry owner \<open>a\<close> holds \<open>10.0.0.100\<close> in subnet
  \<open>x\<close> and nothing in the dual-stack subnet (its pod-to-IP maps are empty), yet
  \<open>GetPodAddress\<close> returns three entries, two of them for the dual-stack subnet with
  an empty address and MAC.
\<close>

theorem GetPodAddress_blank_entries_counterexample:
  "V4PodToIP exampleDualSubnet = [] \<and> V6PodToIP exampleDualSubnet = []
   \<and> map Ip (GetPodAddress exampleEnv exampleIPAM ''a'') = [''10.0.0.100'', '''', '''']
   \<and> map Mac (GetPodAddress exampleEnv exampleIPAM ''a'') = [''00:00:00:53:6b:b6'', '''', '''']
   \<and> map Subnet (GetPodAddress exampleEnv exampleIPAM ''a'') =
       [exampleV4Subnet, exampleDualSubnet, exampleDualSubnet]"
  by (simp add: GetPodAddress_def exampleIPAM_def podEntries_def exampleGetPodAddress_def
      heldV4_def heldV6_def heldMac_def exampleV4Subnet_def exampleDualSubnet_def
      ProtocolIPv4_def ProtocolIPv6_def exampleEnv_def)

text \<open>
  Claim C5, amended: for every owner name, \<open>GetPodAddress\<close> returns entries for every
  subnet of the registry, whether or not the owner holds an address in it. The result
  is, subnet by subnet in the order the registry is ranged over: one entry carrying
  \<open>string(v4IP)\<close> when \<open>Subnet.GetPodAddress\<close> reports the protocol IPv4, one entry
  carrying \<open>string(v6IP)\<close> when it reports IPv6, and for any other reported protocol
  two entries, \<open>string(v4IP)\<close> then \<open>string(v6IP)\<close>; each entry holds the subnet and
  the reported MAC. So every subnet contributes one or two entries.
\<close>

theorem GetPodAddress_entries:
  "GetPodAddress env ipam podName =
     concat (map (\<lambda>(name, subnet).
        case Subnet_GetPodAddress env subnet podName of
          (v4IP, v6IP, mac, protocol) \<Rightarrow>
            if protocol = ProtocolIPv4
            then [\<lparr>Subnet = subnet, Ip = ofIP env v4IP, Mac = mac\<rparr>]
            else if protocol = ProtocolIPv6
            then [\<lparr>Subnet = subnet, Ip = ofIP env v6IP, Mac = mac\<rparr>]
            else [\<lparr>Subnet = subnet, Ip = ofIP env v4IP, Mac = mac\<rparr>,
                  \<lparr>Subnet = subnet, Ip = ofIP env v6IP, Mac = mac\<rparr>]) (Subnets ipam))
   \<and> length (Subnets ipam) \<le> length (GetPodAddress env ipam podName)
   \<and> length (GetPodAddress env ipam podName) \<le> 2 * length (Subnets ipam)"
proof -
  have "(\<lambda>(name :: string, subnet). podEntries env subnet podName) =
        (\<lambda>(name, subnet).
        case Subnet_GetPodAddress env subnet podName of
          (v4IP, v6IP, mac, protocol) \<Rightarrow>
            if protocol = ProtocolIPv4
            then [\<lparr>Subnet = subnet, Ip = ofIP env v4IP, Mac = mac\<rparr>]
            else if protocol = ProtocolIPv6
            then [\<lparr>Subnet = subnet, Ip = ofIP env v6IP, Mac = mac\<rparr>]
            else [\<lparr>Subnet = subnet, Ip = ofIP env v4IP, Mac = mac\<rparr>,
                  \<lparr>Subnet = subnet, Ip = ofIP env v6IP, Mac = mac\<rparr>])"
    by (simp add: podEntries_def fun_eq_iff)
  then show ?thesis
    using GetPodAddress_concat [of env ipam podName] GetPodAddress_length [of ipam env podName]
    by simp
qed

theorem GetPodAddress_entries_witness:
  "Subnets exampleIPAM = [(''x'', exampleV4Subnet), (''dual'', exampleDualSubnet)]
   \<and> Subnet_GetPodAddress exampleEnv exampleV4Subnet ''a'' =
       (V4 167772260, NoIP, ''00:00:00:53:6b:b6'', ''IPv4'')
   \<and> Subnet_GetPodAddress exampleEnv exampleDualSubnet ''a'' = (NoIP, NoIP, '''', ''Dual'')
   \<and> GetPodAddress exampleEnv exampleIPAM ''a'' =
       [\<lparr>Subnet = exampleV4Subnet, Ip = ''10.0.0.100'', Mac = ''00:00:00:53:6b:b6''\<rparr>,
        \<lparr>Subnet = exampleDualSubnet, Ip = '''', Mac = ''''\<rparr>,
        \<lparr>Subnet = exampleDualSubnet, Ip = '''', Mac = ''''\<rparr>]"
proof -
  have s: "Subnets exampleIPAM = [(''x'', exampleV4Subnet), (''dual'', exampleDualSubnet)]"
    by (simp add: exampleIPAM_def)
  have x: "Subnet_GetPodAddress exampleEnv exampleV4Subnet ''a'' =
       (V4 167772260, NoIP, ''00:00:00:53:6b:b6'', ''IPv4'')"
    by (simp add: exampleEnv_def exampleGetPodAddress_def heldV4_def heldV6_def heldMac_def
        exampleV4Subnet_def)
  have d: "Subnet_GetPodAddress exampleEnv exampleDualSubnet ''a'' = (NoIP, NoIP, '''', ''Dual'')"
    by (simp add: exampleEnv_def exampleGetPodAddress_def heldV4_def heldV6_def heldMac_def
        exampleDualSubnet_def)
  have o: "ofIP exampleEnv (V4 167772260) = ''10.0.0.100''" "ofIP exampleEnv NoIP = ''''"
    by (simp_all add: exampleEnv_def)
  have "GetPodAddress exampleEnv exampleIPAM ''a'' =
       [\<lparr>Subnet = exampleV4Subnet, Ip = ''10.0.0.100'', Mac = ''00:00:00:53:6b:b6''\<rparr>,
        \<lparr>Subnet = exampleDualSubnet, Ip = '''', Mac = ''''\<rparr>,
        \<lparr>Subnet = exampleDualSubnet, Ip = '''', Mac = ''''\<rparr>]"
    using GetPodAddress_entries [of exampleEnv exampleIPAM "''a''"]
    by (simp add: s x d o ProtocolIPv4_def ProtocolIPv6_def)
  with s x d show ?thesis
    by (intro conjI)
qed

end
